theory Spec2Isabelle
  imports Complex_Main "HOL-Library.List_Lexorder" "HOL-Library.Char_ord"
begin

chapter \<open>The model\<close>

section \<open>The dashboard's data model\<close>

text \<open>
  The dashboard component (\<^verbatim>\<open>Dashboard\<close>) keeps the payload of
  \<^verbatim>\<open>GET /health/dashboard\<close> in its state. The TypeScript interface
  \<^verbatim>\<open>HealthData\<close> types it as an object \<^verbatim>\<open>metrics\<close> whose keys
  \<^verbatim>\<open>sleep\<close>, \<^verbatim>\<open>steps\<close>, \<^verbatim>\<open>heart_rate\<close> and \<^verbatim>\<open>calories\<close>
  hold arrays of \<^verbatim>\<open>{date, value}\<close>. The component nevertheless reads every
  level through \<^verbatim>\<open>?.\<close>, so a key may be missing at run time: the object is an
  association list from key to series (one entry per key, as \<^verbatim>\<open>JSON.parse\<close>
  builds it), a missing key is \<open>None\<close>, and so is a missing \<^verbatim>\<open>metrics\<close>.
  A \<open>dp_value\<close> is the value as the payload writes it, a decimal. What the component
  computes with is the JavaScript number \<^verbatim>\<open>JSON.parse\<close> makes of it, a binary64
  floating-point value; that step and the rounding of the arithmetic are set out with
  the helpers below.
\<close>

record data_point =
  dp_date :: string
  dp_value :: real

type_synonym series = "data_point list"

type_synonym metrics_object = "(string \<times> series) list"

record health_data =
  metrics :: "metrics_object option"
  source :: "string option"

text \<open>\<^verbatim>\<open>healthData?.metrics?.sleep\<close> and its siblings: \<open>None\<close> is \<^verbatim>\<open>undefined\<close>.\<close>

definition metric_series :: "string \<Rightarrow> health_data option \<Rightarrow> series option" where
  "metric_series key healthData =
     (case healthData of
        None \<Rightarrow> None
      | Some h \<Rightarrow> (case metrics h of None \<Rightarrow> None | Some m \<Rightarrow> map_of m key))"

definition sleep_series :: "health_data option \<Rightarrow> series option" where
  "sleep_series healthData = metric_series ''sleep'' healthData"

definition steps_series :: "health_data option \<Rightarrow> series option" where
  "steps_series healthData = metric_series ''steps'' healthData"

text \<open>A small payload used to run the definitions: three days of sleep and steps.\<close>

definition demo_sleep :: series where
  "demo_sleep =
     [\<lparr>dp_date = ''2024-03-03'', dp_value = 7\<rparr>,
      \<lparr>dp_date = ''2024-03-02'', dp_value = 6\<rparr>,
      \<lparr>dp_date = ''2024-03-01'', dp_value = 8\<rparr>]"

definition demo_steps :: series where
  "demo_steps =
     [\<lparr>dp_date = ''2024-03-03'', dp_value = 9000\<rparr>,
      \<lparr>dp_date = ''2024-03-02'', dp_value = 7000\<rparr>,
      \<lparr>dp_date = ''2024-03-01'', dp_value = 11000\<rparr>]"

definition demo_health_data :: health_data where
  "demo_health_data =
     \<lparr>metrics = Some [(''sleep'', demo_sleep), (''steps'', demo_steps)],
      source = Some ''oura''\<rparr>"

section \<open>Day navigation\<close>

text \<open>
  \<^verbatim>\<open>currentDayIndex\<close> starts at 0 (\<^verbatim>\<open>useState(0)\<close>) and is set to 0 again when the
  dashboard payload arrives. The two buttons run
  \<^verbatim>\<open>Math.min((healthData?.metrics?.sleep?.length || 1) - 1, currentDayIndex + 1)\<close> and
  \<^verbatim>\<open>Math.max(0, currentDayIndex - 1)\<close>. In \<^verbatim>\<open>length || 1\<close> both
  \<^verbatim>\<open>undefined\<close> and the length 0 give 1.
\<close>

definition sleep_length_or_1 :: "health_data option \<Rightarrow> int" where
  "sleep_length_or_1 healthData =
     (case sleep_series healthData of
        None \<Rightarrow> 1
      | Some s \<Rightarrow> (if length s = 0 then 1 else int (length s)))"

definition previous_day :: "health_data option \<Rightarrow> int \<Rightarrow> int" where
  "previous_day healthData currentDayIndex =
     min (sleep_length_or_1 healthData - 1) (currentDayIndex + 1)"

definition next_day :: "int \<Rightarrow> int" where
  "next_day currentDayIndex = max 0 (currentDayIndex - 1)"

text \<open>The \<^verbatim>\<open>disabled\<close> attributes of the two buttons.\<close>

definition previous_disabled :: "health_data option \<Rightarrow> int \<Rightarrow> bool" where
  "previous_disabled healthData currentDayIndex =
     (case sleep_series healthData of
        None \<Rightarrow> True
      | Some s \<Rightarrow> currentDayIndex \<ge> int (length s) - 1)"

definition next_disabled :: "int \<Rightarrow> bool" where
  "next_disabled currentDayIndex = (currentDayIndex = 0)"

datatype nav_event = DataLoaded | ClickPrevious | ClickNext | PressPrevious | PressNext

text \<open>
  One event of the navigation. \<open>ClickPrevious\<close> and \<open>ClickNext\<close> are clicks as the
  browser delivers them: a disabled button fires no handler. \<open>PressPrevious\<close> and
  \<open>PressNext\<close> run the handler itself, whatever the \<^verbatim>\<open>disabled\<close> attribute says.
\<close>

fun nav_step :: "health_data option \<Rightarrow> int \<Rightarrow> nav_event \<Rightarrow> int" where
  "nav_step healthData i DataLoaded = 0"
| "nav_step healthData i ClickPrevious =
     (if previous_disabled healthData i then i else previous_day healthData i)"
| "nav_step healthData i ClickNext = (if next_disabled i then i else next_day i)"
| "nav_step healthData i PressPrevious = previous_day healthData i"
| "nav_step healthData i PressNext = next_day i"

definition navigate :: "health_data option \<Rightarrow> nav_event list \<Rightarrow> int" where
  "navigate healthData events = foldl (nav_step healthData) 0 events"

section \<open>JavaScript helpers used by the rendering code\<close>

text \<open>
  \<^verbatim>\<open>xs[i]\<close> is \<^verbatim>\<open>undefined\<close> out of range; \<^verbatim>\<open>xs.slice(start)\<close> counts a
  negative \<open>start\<close> from the end and clamps it to the array.
\<close>

definition js_index :: "'a list \<Rightarrow> int \<Rightarrow> 'a option" where
  "js_index xs i = (if 0 \<le> i \<and> i < int (length xs) then Some (xs ! nat i) else None)"

definition js_slice_from :: "int \<Rightarrow> 'a list \<Rightarrow> 'a list" where
  "js_slice_from start xs =
     (let n = int (length xs);
          k = (if start < 0 then max (n + start) 0 else min start n)
      in drop (nat k) xs)"

text \<open>
  Numbers. A JavaScript number is a binary64 floating-point value. A finite one is
  modelled as the real it denotes, and \<open>None\<close> stands for a number that is not finite
  (\<^verbatim>\<open>Infinity\<close>, \<^verbatim>\<open>-Infinity\<close> or \<^verbatim>\<open>NaN\<close>). \<open>binary64 x\<close> is the number
  nearest to the real \<open>x\<close>: \<open>x\<close> rounded to 53 significant bits, a tie going to the
  even significand, with the exponent of the last bit held at \<open>-1074\<close> for small
  results (which are subnormal, or 0), and not finite once the rounded magnitude reaches
  \<open>2 ^ 1024\<close>. It is what \<^verbatim>\<open>JSON.parse\<close> makes of a decimal \<open>x\<close> of the payload,
  and what \<^verbatim>\<open>a + b\<close>, \<^verbatim>\<open>a * b\<close> and \<^verbatim>\<open>a / b\<close> return when their exact result is
  \<open>x\<close>. An operation on a number that is not finite gives such a number again, given
  that the other operand is finite, as the literals 100 and 7 are. The sign of a zero is
  not modelled.
\<close>

definition round_ties_even :: "real \<Rightarrow> int" where
  "round_ties_even y =
     (let f = \<lfloor>y\<rfloor>; r = y - of_int f
      in if r < 1 / 2 then f else if 1 / 2 < r then f + 1 else if even f then f else f + 1)"

definition binary64 :: "real \<Rightarrow> real option" where
  "binary64 x =
     (if x = 0 then Some 0
      else let e = max (\<lfloor>log 2 \<bar>x\<bar>\<rfloor> - 52) (- 1074);
               y = of_int (round_ties_even (x / 2 powr of_int e)) * 2 powr of_int e
           in if \<bar>y\<bar> < 2 ^ 1024 then Some y else None)"

definition js_plus :: "real option \<Rightarrow> real option \<Rightarrow> real option" where
  "js_plus a b =
     (case a of
        None \<Rightarrow> None
      | Some x \<Rightarrow> (case b of None \<Rightarrow> None | Some y \<Rightarrow> binary64 (x + y)))"

definition js_times :: "real option \<Rightarrow> real \<Rightarrow> real option" where
  "js_times a b = (case a of None \<Rightarrow> None | Some x \<Rightarrow> binary64 (x * b))"

definition js_divide :: "real option \<Rightarrow> real \<Rightarrow> real option" where
  "js_divide a b =
     (case a of None \<Rightarrow> None | Some x \<Rightarrow> (if b = 0 then None else binary64 (x / b)))"


text \<open>
  \<^verbatim>\<open>v || d\<close> on a value \<open>v\<close> of the payload is \<open>d\<close> when \<open>v\<close> is
  \<^verbatim>\<open>undefined\<close> or the number parsed from it is 0, and that number otherwise.
\<close>

definition js_or_number :: "real option \<Rightarrow> real \<Rightarrow> real option" where
  "js_or_number v d =
     (case v of
        None \<Rightarrow> Some d
      | Some x \<Rightarrow> (if binary64 x = Some 0 then Some d else binary64 x))"

text \<open>
  \<^verbatim>\<open>x.toFixed(d)\<close> writes the decimal with \<open>d\<close> fraction digits that is nearest to
  the exact value of the number \<open>x\<close>, the one of larger magnitude on a tie, and keeps
  the sign; from \<open>10 ^ 21\<close> on it writes what \<^verbatim>\<open>String(x)\<close> writes, a text that reads
  back as \<open>x\<close>. \<open>to_fixed\<close> gives the number the text denotes.
  \<^verbatim>\<open>Math.round(x)\<close> is \<open>\<lfloor>x + 1/2\<rfloor>\<close>, computed exactly. Both give the text of the
  number itself when it is not finite (\<open>map_option\<close> at their calls).
\<close>

definition to_fixed :: "nat \<Rightarrow> real \<Rightarrow> real" where
  "to_fixed d x =
     (if 10 ^ 21 \<le> \<bar>x\<bar> then x
      else sgn x * real_of_int \<lfloor>\<bar>x\<bar> * 10 ^ d + 1 / 2\<rfloor> / 10 ^ d)"

definition math_round :: "real \<Rightarrow> int" where
  "math_round x = \<lfloor>x + 1 / 2\<rfloor>"

section \<open>Empty state, metric cards and charts\<close>

text \<open>
  \<^verbatim>\<open>hasData = healthData.metrics && Object.keys(healthData.metrics).length > 0 &&
  healthData.metrics.sleep && healthData.metrics.sleep.length > 0\<close>.
  An array is truthy even when empty, so the third conjunct only asks for the key.
\<close>

definition hasData :: "health_data \<Rightarrow> bool" where
  "hasData h =
     (case metrics h of
        None \<Rightarrow> False
      | Some m \<Rightarrow>
          length (map fst m) > 0 \<and>
          (case map_of m ''sleep'' of None \<Rightarrow> False | Some s \<Rightarrow> length s > 0))"

text \<open>
  The four cards of \<^verbatim>\<open>renderMetricsCards\<close> show
  \<^verbatim>\<open>healthData?.metrics?.KEY?.[currentDayIndex]?.value || 0\<close>.
\<close>

definition current_value :: "string \<Rightarrow> health_data option \<Rightarrow> int \<Rightarrow> real option" where
  "current_value key healthData currentDayIndex =
     js_or_number
       (case metric_series key healthData of
          None \<Rightarrow> None
        | Some s \<Rightarrow> map_option dp_value (js_index s currentDayIndex))
       0"

datatype chart_card = ChartCard string "series option"

datatype metrics_view = MetricsView string "(string \<times> real option) list" "chart_card list"

text \<open>
  The \<^verbatim>\<open>switch (uiStyle)\<close> of \<^verbatim>\<open>renderMetricsCards\<close>: seven named layouts and a
  default one; all show the same four values, and the sidebar layout also holds the two
  charts. Colours, icons and class names are left out.
\<close>

definition renderMetricsCards :: "string \<Rightarrow> health_data option \<Rightarrow> int \<Rightarrow> metrics_view" where
  "renderMetricsCards uiStyle healthData currentDayIndex =
     (let cards =
            [(''Sleep'', current_value ''sleep'' healthData currentDayIndex),
             (''Steps'', current_value ''steps'' healthData currentDayIndex),
             (''Heart Rate'', current_value ''heart_rate'' healthData currentDayIndex),
             (''Calories'', current_value ''calories'' healthData currentDayIndex)]
      in if uiStyle = ''sidebar''
         then MetricsView ''sidebar'' cards
                [ChartCard ''Sleep Patterns'' (sleep_series healthData),
                 ChartCard ''Daily Activity'' (steps_series healthData)]
         else if uiStyle \<in> set [''compact'', ''cards'', ''minimal'', ''grid'', ''timeline'', ''split'']
         then MetricsView uiStyle cards []
         else MetricsView ''default'' cards [])"

text \<open>
  The "Recent Trends" box of the minimal layout:
  \<^verbatim>\<open>(sleep.slice(-7).reduce((sum, item) => sum + item.value, 0) / 7).toFixed(1)\<close> and
  \<^verbatim>\<open>Math.round(steps.slice(-7).reduce((sum, item) => sum + item.value, 0) / 7)
  .toLocaleString()\<close>, each replaced by \<^verbatim>\<open>'0'\<close> when the series is missing.
  \<open>sum_values\<close> is the \<^verbatim>\<open>reduce\<close> call, one rounded addition per entry from the
  left, starting at 0, each entry read as the number parsed from the payload;
  \<open>weekly_quotient\<close> is the number handed to the formatting call;
  the two \<open>shown\<close> functions give the number the formatted text denotes (\<open>None\<close>:
  the text of a number that is not finite).
\<close>

definition sum_values :: "series \<Rightarrow> real option" where
  "sum_values s = foldl (\<lambda>sum item. js_plus sum (binary64 (dp_value item))) (Some 0) s"

definition weekly_quotient :: "series \<Rightarrow> real option" where
  "weekly_quotient s = js_divide (sum_values (js_slice_from (- 7) s)) 7"

definition avg_sleep_shown :: "health_data option \<Rightarrow> real option" where
  "avg_sleep_shown healthData =
     (case sleep_series healthData of
        None \<Rightarrow> Some 0
      | Some s \<Rightarrow> map_option (to_fixed 1) (weekly_quotient s))"

definition avg_steps_shown :: "health_data option \<Rightarrow> int option" where
  "avg_steps_shown healthData =
     (case steps_series healthData of
        None \<Rightarrow> Some 0
      | Some s \<Rightarrow> map_option math_round (weekly_quotient s))"

datatype charts_view = ChartGrid "chart_card list" | RecentTrends "real option" "int option"

definition renderCharts :: "string \<Rightarrow> health_data option \<Rightarrow> charts_view option" where
  "renderCharts uiStyle healthData =
     (if uiStyle = ''minimal''
      then Some (RecentTrends (avg_sleep_shown healthData) (avg_steps_shown healthData))
      else if uiStyle = ''sidebar'' then None
      else if uiStyle = ''split''
      then Some (ChartGrid [ChartCard ''Sleep Quality'' (sleep_series healthData),
                            ChartCard ''Activity Level'' (steps_series healthData)])
      else Some (ChartGrid [ChartCard ''Sleep Patterns'' (sleep_series healthData),
                            ChartCard ''Daily Activity'' (steps_series healthData)]))"

section \<open>The chat transcript\<close>

text \<open>
  A transcript entry is \<^verbatim>\<open>{type: 'user' | 'ai', message, confidence?}\<close>. The reply
  of \<^verbatim>\<open>POST /health/chat\<close> is untyped JSON, so \<^verbatim>\<open>data.response\<close> and
  \<^verbatim>\<open>data.confidence\<close> may each be \<^verbatim>\<open>undefined\<close> (\<open>None\<close>).
\<close>

datatype sender = User | AI

record chat_message =
  msg_type :: sender
  message :: "string option"
  confidence :: "real option"

text \<open>
  What one transcript entry puts on the page. The text is always a paragraph. The
  confidence line is written \<^verbatim>\<open>{msg.confidence && (<p>Confidence: ...%</p>)}\<close>:
  JavaScript's \<^verbatim>\<open>a && b\<close> is \<open>a\<close> itself when \<open>a\<close> is falsy (for a number:
  \<^verbatim>\<open>undefined\<close> or 0) and \<open>b\<close> otherwise, and React prints a number child as
  text and skips \<^verbatim>\<open>undefined\<close>. A \<open>confidence\<close> is the value as the reply writes
  it; the number parsed from it is what is tested and multiplied. The percentage is
  \<^verbatim>\<open>(msg.confidence * 100).toFixed(0)\<close>, a rounded product.
\<close>

datatype node = Paragraph "string option" | ConfidenceLine "real option" | NumberText real

definition js_and :: "real option \<Rightarrow> (real \<Rightarrow> 'a) \<Rightarrow> real option + 'a" where
  "js_and v e =
     (case v of
        None \<Rightarrow> Inl None
      | Some x \<Rightarrow> (if binary64 x = Some 0 then Inl (Some 0) else Inr (e x)))"

definition react_child :: "real option + node \<Rightarrow> node list" where
  "react_child c =
     (case c of
        Inl None \<Rightarrow> []
      | Inl (Some x) \<Rightarrow> [NumberText x]
      | Inr n \<Rightarrow> [n])"

definition render_message :: "chat_message \<Rightarrow> node list" where
  "render_message msg =
     Paragraph (message msg) #
     react_child
       (js_and (confidence msg)
          (\<lambda>c. ConfidenceLine (map_option (to_fixed 0) (js_times (binary64 c) 100))))"

section \<open>The dashboard component\<close>

text \<open>
  The state hooks of \<^verbatim>\<open>Dashboard\<close> that decide what is shown. The hooks for the
  colour scheme, the connection badge and the insight list only style or fill sections
  and are left out.
\<close>

record dashboard_state =
  healthData :: "health_data option"
  currentDayIndex :: int
  uiStyle :: string
  healthStory :: "string option"
  chatMessages :: "chat_message list"
  chatInput :: string
  isLoadingChat :: bool

definition initial_state :: dashboard_state where
  "initial_state =
     \<lparr>healthData = None, currentDayIndex = 0, uiStyle = ''default'', healthStory = None,
      chatMessages = [], chatInput = [], isLoadingChat = False\<rparr>"

datatype page_part =
    LoadingText
  | DayNavigation
  | EmptyState
  | Metrics metrics_view
  | Charts charts_view
  | Story string
  | Insights
  | ChatLog "node list list" bool
  | ChatControls

text \<open>
  The JSX the component returns, top to bottom. Without a payload only "Loading..." is
  shown. Otherwise the header with the day navigation comes first, then either the
  "No Health Data Connected" box or the metric cards and charts, then the story and the
  insight list (both only with data), then the chat.
\<close>

definition Dashboard :: "dashboard_state \<Rightarrow> page_part list" where
  "Dashboard st =
     (case healthData st of
        None \<Rightarrow> [LoadingText]
      | Some h \<Rightarrow>
          [DayNavigation]
          @ (if \<not> hasData h then [EmptyState]
             else Metrics (renderMetricsCards (uiStyle st) (healthData st) (currentDayIndex st))
                  # (case renderCharts (uiStyle st) (healthData st) of
                       None \<Rightarrow> []
                     | Some c \<Rightarrow> [Charts c]))
          @ (case healthStory st of
               None \<Rightarrow> []
             | Some narrative \<Rightarrow> (if hasData h then [Story narrative] else []))
          @ (if hasData h then [Insights] else [])
          @ (if length (chatMessages st) > 0
             then [ChatLog (map render_message (chatMessages st)) (isLoadingChat st)]
             else [])
          @ [ChatControls])"

fun is_metrics_or_charts :: "page_part \<Rightarrow> bool" where
  "is_metrics_or_charts (Metrics v) = True"
| "is_metrics_or_charts (Charts c) = True"
| "is_metrics_or_charts s = False"

text \<open>A payload with a steps series and no \<^verbatim>\<open>sleep\<close> key.\<close>

definition steps_only_data :: health_data where
  "steps_only_data = \<lparr>metrics = Some [(''steps'', demo_steps)], source = Some ''apple_health''\<rparr>"

section \<open>The weekly averages of the minimal layout\<close>

text \<open>The mean of the entries a series really has, to compare the displayed figure with.\<close>

definition arithmetic_mean :: "series \<Rightarrow> real" where
  "arithmetic_mean s = sum_list (map dp_value s) / real (length s)"



text \<open>Six days whose value is the smallest positive number, \<open>1 / 2 ^ 1074\<close>.\<close>

definition tiny_steps :: series where
  "tiny_steps = replicate 6 \<lparr>dp_date = ''2024-03-01'', dp_value = 1 / 2 ^ 1074\<rparr>"

section \<open>Sending a chat message\<close>

text \<open>
  \<^verbatim>\<open>String.prototype.trim\<close> strips white space and line terminators from both ends.
  A string is a list of \<open>char\<close>, each one code unit below 256; text outside that range
  is not covered by the model. Of these code units ECMAScript counts tab, line feed,
  vertical tab, form feed, carriage return, space and the no-break space (160) as white
  space. \<^verbatim>\<open>!message.trim()\<close> holds when nothing is left.
\<close>

definition js_whitespace :: "char \<Rightarrow> bool" where
  "js_whitespace c = ((of_char c :: nat) \<in> set [9, 10, 11, 12, 13, 32, 160])"

definition js_trim :: "string \<Rightarrow> string" where
  "js_trim s = rev (dropWhile js_whitespace (rev (dropWhile js_whitespace s)))"

definition js_blank :: "string \<Rightarrow> bool" where
  "js_blank s = (js_trim s = [])"

text \<open>
  The two \<^verbatim>\<open>await\<close>s of the \<^verbatim>\<open>try\<close> block, \<^verbatim>\<open>fetch(...)\<close> and
  \<^verbatim>\<open>response.json()\<close>. The request may never settle (\<open>NeverSettles\<close>): the function
  then stays suspended at the \<^verbatim>\<open>await\<close> and none of its later statements runs.
  \<^verbatim>\<open>fetch\<close> may reject (no connection) and \<^verbatim>\<open>response.json()\<close> may reject (the
  body is not JSON): both throw inside the \<^verbatim>\<open>try\<close> block. Otherwise \<^verbatim>\<open>data\<close> is
  the parsed body: \<^verbatim>\<open>null\<close>, or any other JSON value, of which \<open>JsonObject r c\<close> is
  one whose properties \<^verbatim>\<open>response\<close> and \<^verbatim>\<open>confidence\<close> read as \<open>r\<close> and \<open>c\<close>,
  each possibly \<^verbatim>\<open>undefined\<close> and otherwise of the type the transcript declares
  for it, a string and a number. The HTTP status is never looked at.
  \<open>chat_request\<close> gives \<open>None\<close> when the request never settles, the error thrown, or
  \<^verbatim>\<open>data\<close>.
\<close>

datatype js_error = NetworkError | SyntaxError | TypeError

datatype json_value = JsonNull | JsonObject "string option" "real option"

datatype response_body = NotJson | Json json_value

datatype fetch_result = FetchRejected | NeverSettles | Responded response_body

abbreviation Reply :: "string option \<Rightarrow> real option \<Rightarrow> fetch_result" where
  "Reply r c \<equiv> Responded (Json (JsonObject r c))"

definition chat_request :: "fetch_result \<Rightarrow> (js_error + json_value) option" where
  "chat_request res =
     (case res of
        NeverSettles \<Rightarrow> None
      | FetchRejected \<Rightarrow> Some (Inl NetworkError)
      | Responded NotJson \<Rightarrow> Some (Inl SyntaxError)
      | Responded (Json data) \<Rightarrow> Some (Inr data))"

text \<open>
  Reading \<^verbatim>\<open>data.response\<close> and \<^verbatim>\<open>data.confidence\<close>: a property read on
  \<^verbatim>\<open>null\<close> throws a \<^verbatim>\<open>TypeError\<close>.
\<close>

definition reply_properties :: "json_value \<Rightarrow> js_error + (string option \<times> real option)" where
  "reply_properties data =
     (case data of
        JsonNull \<Rightarrow> Inl TypeError
      | JsonObject r c \<Rightarrow> Inr (r, c))"

text \<open>The three transcript entries the dashboard builds.\<close>

definition user_entry :: "string \<Rightarrow> chat_message" where
  "user_entry text = \<lparr>msg_type = User, message = Some text, confidence = None\<rparr>"

definition ai_entry :: "string option \<Rightarrow> real option \<Rightarrow> chat_message" where
  "ai_entry r c = \<lparr>msg_type = AI, message = r, confidence = c\<rparr>"

definition apology_entry :: chat_message where
  "apology_entry =
     \<lparr>msg_type = AI,
      message = Some ''Sorry, I had trouble processing your question. Please try again.'',
      confidence = None\<rparr>"

text \<open>
  The updater functions handed to \<^verbatim>\<open>setChatMessages\<close> by the \<^verbatim>\<open>try\<close> block and by
  the \<^verbatim>\<open>catch\<close> block. The first is
  \<^verbatim>\<open>prev => [...prev, {type: 'ai', message: data.response, confidence: data.confidence}]\<close>:
  the two properties are read in the body of the updater, which React calls, so an error
  of these reads is thrown by React's render and not by the statement
  \<^verbatim>\<open>setChatMessages(...)\<close> of the \<^verbatim>\<open>try\<close> block.
\<close>

definition append_reply :: "json_value \<Rightarrow> chat_message list \<Rightarrow> js_error + chat_message list" where
  "append_reply data prev =
     (case reply_properties data of
        Inl error \<Rightarrow> Inl error
      | Inr (r, c) \<Rightarrow> Inr (prev @ [ai_entry r c]))"

definition append_apology :: "chat_message list \<Rightarrow> js_error + chat_message list" where
  "append_apology prev = Inr (prev @ [apology_entry])"

text \<open>
  \<^verbatim>\<open>sendChatMessage\<close> in the order of its statements: the guard with its early
  return; then the user's entry is appended, the input cleared and the loading flag
  set (\<open>sendChatMessage_begin\<close>, the state while the request is in flight, and for
  good when it never settles); then the \<^verbatim>\<open>try\<close> block or, for what is thrown inside
  it, the \<^verbatim>\<open>catch\<close> block queues its updater and \<^verbatim>\<open>finally\<close> clears the flag
  (\<open>sendChatMessage_settle\<close>). React applies a queued updater while it renders the
  component again, outside the \<^verbatim>\<open>try\<close> block: what the updater throws is not caught
  by \<^verbatim>\<open>catch\<close>, no apology is appended, and the error leaves the render (\<open>Inl\<close>);
  the page has no error boundary. Otherwise the result is the state the page shows
  from then on. The guard reads \<^verbatim>\<open>isLoadingChat\<close> as of the render that created the
  handler; \<open>st\<close> is the state of that render, so the model covers an invocation made
  before any other change of the state.
\<close>

definition sendChatMessage_begin :: "string \<Rightarrow> dashboard_state \<Rightarrow> dashboard_state" where
  "sendChatMessage_begin text st =
     st\<lparr>chatMessages := chatMessages st @ [user_entry text],
        chatInput := [],
        isLoadingChat := True\<rparr>"

definition sendChatMessage_settle ::
  "(chat_message list \<Rightarrow> js_error + chat_message list) \<Rightarrow> dashboard_state
   \<Rightarrow> js_error + dashboard_state" where
  "sendChatMessage_settle updater st =
     (case updater (chatMessages st) of
        Inl error \<Rightarrow> Inl error
      | Inr entries \<Rightarrow> Inr (st\<lparr>chatMessages := entries, isLoadingChat := False\<rparr>))"

definition sendChatMessage ::
  "fetch_result \<Rightarrow> string \<Rightarrow> dashboard_state \<Rightarrow> js_error + dashboard_state" where
  "sendChatMessage reply text st =
     (if js_blank text \<or> isLoadingChat st then Inr st
      else (case chat_request reply of
              None \<Rightarrow> Inr (sendChatMessage_begin text st)
            | Some (Inl error) \<Rightarrow>
                sendChatMessage_settle append_apology (sendChatMessage_begin text st)
            | Some (Inr data) \<Rightarrow>
                sendChatMessage_settle (append_reply data) (sendChatMessage_begin text st)))"

section \<open>The chat of the AI trainer page\<close>

text \<open>
  \<^verbatim>\<open>AITrainerPage\<close> has a transcript of its own, with time stamps and no confidence.
  \<^verbatim>\<open>askQuestion\<close> returns at once when the question is blank or no model information
  is held. It builds the AI entry inside the \<^verbatim>\<open>try\<close> block, before it calls
  \<^verbatim>\<open>setChatMessages\<close>, so here the \<^verbatim>\<open>TypeError\<close> of a \<^verbatim>\<open>null\<close> body is caught
  like the other two errors; a reply without text (\<^verbatim>\<open>undefined\<close> or the empty string)
  is replaced by a fixed sentence (\<^verbatim>\<open>data.response || '...'\<close>). The two time stamps are
  read from the clock and are parameters here. \<^verbatim>\<open>isAsking\<close> is set while the request
  is in flight, and for good when it never settles, and cleared by \<^verbatim>\<open>finally\<close>.
\<close>

record model_info =
  model_id :: string
  trained_at :: string
  training_samples :: real
  model_status :: string
  capabilities :: "string list"

record trainer_message =
  t_type :: sender
  t_message :: string
  timestamp :: string

record trainer_state =
  modelInfo :: "model_info option"
  trainerMessages :: "trainer_message list"
  currentQuestion :: string
  isAsking :: bool

definition trainer_answer :: "js_error + json_value \<Rightarrow> string" where
  "trainer_answer settled =
     (case settled of
        Inl error \<Rightarrow> ''Sorry, there was an error processing your question.''
      | Inr data \<Rightarrow>
          (case reply_properties data of
             Inl error \<Rightarrow> ''Sorry, there was an error processing your question.''
           | Inr (r, c) \<Rightarrow>
               (case r of
                  None \<Rightarrow> ''Sorry, I couldn't process that question.''
                | Some text \<Rightarrow>
                    (if text = [] then ''Sorry, I couldn't process that question.'' else text))))"

definition askQuestion_begin :: "string \<Rightarrow> trainer_state \<Rightarrow> trainer_state" where
  "askQuestion_begin asked_at st =
     st\<lparr>trainerMessages :=
          trainerMessages st
          @ [\<lparr>t_type = User, t_message = currentQuestion st, timestamp = asked_at\<rparr>],
        isAsking := True,
        currentQuestion := []\<rparr>"

definition askQuestion :: "fetch_result \<Rightarrow> string \<Rightarrow> string \<Rightarrow> trainer_state \<Rightarrow> trainer_state" where
  "askQuestion reply asked_at answered_at st =
     (if js_blank (currentQuestion st) \<or> modelInfo st = None then st
      else (case chat_request reply of
              None \<Rightarrow> askQuestion_begin asked_at st
            | Some settled \<Rightarrow>
                (askQuestion_begin asked_at st)
                  \<lparr>trainerMessages :=
                     trainerMessages (askQuestion_begin asked_at st)
                     @ [\<lparr>t_type = AI, t_message = trainer_answer settled,
                         timestamp = answered_at\<rparr>],
                   isAsking := False\<rparr>))"

text \<open>The trainer page after a training run, with a question typed in.\<close>

definition demo_trainer_state :: trainer_state where
  "demo_trainer_state =
     \<lparr>modelInfo = Some \<lparr>model_id = ''demo_model'', trained_at = ''2024-03-03T10:00:00.000Z'',
                          training_samples = 30, model_status = ''ready'',
                          capabilities = [''sleep'', ''steps'']\<rparr>,
      trainerMessages = [],
      currentQuestion = ''Should I go to bed earlier?'',
      isAsking = False\<rparr>"

section \<open>Merging two sources (README, "Multi-Source Data Integration Strategy")\<close>

text \<open>
  The backend is not part of the sources; the README gives the selection step of its
  merge as Python. Each source is a dictionary from date to value, read with
  \<^verbatim>\<open>.get(date)\<close>, which is \<^verbatim>\<open>None\<close> for a missing date. Python's \<^verbatim>\<open>a or b\<close> is
  \<open>a\<close> when \<open>a\<close> is truthy and \<open>b\<close> otherwise, and both \<^verbatim>\<open>None\<close> and the number 0
  are falsy.
\<close>

type_synonym source_data = "string \<rightharpoonup> real"

definition py_or :: "real option \<Rightarrow> real option \<Rightarrow> real option" where
  "py_or a b = (case a of None \<Rightarrow> b | Some x \<Rightarrow> (if x = 0 then b else Some x))"

text \<open>
  The \<^verbatim>\<open>if\<close>/\<^verbatim>\<open>elif\<close> chain assigns \<^verbatim>\<open>value\<close> for three metric types and has no
  \<^verbatim>\<open>else\<close>: for any other type the name stays unbound.
\<close>

datatype 'a binding = Unbound | Bound 'a

definition select_value ::
  "string \<Rightarrow> source_data \<Rightarrow> source_data \<Rightarrow> string \<Rightarrow> real option binding" where
  "select_value metric_type oura_data apple_data date =
     (if metric_type = ''sleep'' then Bound (py_or (oura_data date) (apple_data date))
      else if metric_type = ''steps'' then Bound (py_or (apple_data date) (oura_data date))
      else if metric_type = ''heart_rate'' then Bound (py_or (oura_data date) (apple_data date))
      else Unbound)"

text \<open>
  The policy in the spec's words, to compare with: the first source in the priority
  order that has a value for the date wins, whatever the value.
\<close>

definition first_present :: "source_data \<Rightarrow> source_data \<Rightarrow> string \<Rightarrow> real option" where
  "first_present preferred other date =
     (case preferred date of Some v \<Rightarrow> Some v | None \<Rightarrow> other date)"

section \<open>Anomaly detection (README, "Proactive Anomaly Detection System")\<close>

text \<open>
  The README gives \<^verbatim>\<open>detect_health_anomalies\<close> as Python. Its body reads six names
  that it does not bind; Python looks such a name up in the module when the statement
  runs and raises \<^verbatim>\<open>NameError\<close> when it is not there. Five of them are read on every
  call, before the test: the functions \<^verbatim>\<open>calculate_personal_baseline\<close> and
  \<^verbatim>\<open>count_consecutive_above_threshold\<close>, which are defined nowhere in the sources,
  and the values \<^verbatim>\<open>heart_rate_history\<close>, \<^verbatim>\<open>recent_heart_rate\<close> and
  \<^verbatim>\<open>std_deviation\<close>. The model takes them as given. The sixth,
  \<^verbatim>\<open>consecutive_days\<close>, is read only by the f-string of the warning; the body assigns
  \<^verbatim>\<open>consecutive_elevated_days\<close>, another name, so \<^verbatim>\<open>consecutive_days\<close> is bound
  only if the module binds it (\<open>Bound\<close>, with the text the f-string gives it).
\<close>

datatype py_error = NameError

record module_globals =
  calculate_personal_baseline :: "real list \<Rightarrow> real"
  heart_rate_history :: "real list"
  count_consecutive_above_threshold :: "real list \<Rightarrow> real option \<Rightarrow> int"
  recent_heart_rate :: "real list"
  std_deviation :: real
  consecutive_days :: "string binding"

text \<open>
  The threshold \<^verbatim>\<open>baseline_hr + (2 * std_deviation)\<close>. A Python float is a binary64
  number as well: the baseline and the standard deviation enter as the floats nearest
  to them, and the product and the sum are rounded. This arithmetic does not raise on
  overflow; it gives a value that is not finite (\<open>None\<close>).
\<close>

definition float_mul :: "real \<Rightarrow> real option \<Rightarrow> real option" where
  "float_mul a b = (case b of None \<Rightarrow> None | Some y \<Rightarrow> binary64 (a * y))"

definition float_add :: "real option \<Rightarrow> real option \<Rightarrow> real option" where
  "float_add a b =
     (case a of
        None \<Rightarrow> None
      | Some x \<Rightarrow> (case b of None \<Rightarrow> None | Some y \<Rightarrow> binary64 (x + y)))"

definition elevated_threshold :: "module_globals \<Rightarrow> real option" where
  "elevated_threshold g =
     (let baseline_hr = calculate_personal_baseline g (heart_rate_history g)
      in float_add (binary64 baseline_hr) (float_mul 2 (binary64 (std_deviation g))))"

text \<open>
  A warning is the dictionary with the keys \<^verbatim>\<open>title\<close>, \<^verbatim>\<open>message\<close>,
  \<^verbatim>\<open>context\<close> and \<^verbatim>\<open>recommendation\<close>.
\<close>

record warning =
  title :: string
  warning_message :: string
  context_text :: string
  recommendation :: string

text \<open>
  What a call leaves behind when it does not raise: the local list \<^verbatim>\<open>warnings\<close> as
  it is when the body ends, and the value the caller receives. The body has no
  \<^verbatim>\<open>return\<close> statement, so the caller receives \<^verbatim>\<open>None\<close>.
\<close>

record detection =
  warnings :: "warning list"
  returned :: "warning list option"

text \<open>
  The function. Its three parameters are never read. The minimum run is the literal 3.
\<close>

definition detect_health_anomalies ::
  "module_globals \<Rightarrow> 'a \<Rightarrow> 'b \<Rightarrow> 'c \<Rightarrow> py_error + detection" where
  "detect_health_anomalies g sleep_data activity_data readiness_data =
     (let consecutive_elevated_days =
            count_consecutive_above_threshold g (recent_heart_rate g) (elevated_threshold g)
      in if consecutive_elevated_days \<ge> 3
         then (case consecutive_days g of
                 Unbound \<Rightarrow> Inl NameError
               | Bound days \<Rightarrow>
                   Inr \<lparr>warnings =
                          [\<lparr>title = ''Elevated Resting Heart Rate'',
                            warning_message = ''Elevated for '' @ days @ '' consecutive days'',
                            context_text = ''Previously correlated with stress or early illness'',
                            recommendation = ''Consider rest and monitor symptoms''\<rparr>],
                        returned = None\<rparr>)
         else Inr \<lparr>warnings = [], returned = None\<rparr>)"

text \<open>
  Modelled from the spec: \<^verbatim>\<open>count_consecutive_above_threshold\<close> is called by the
  README's function and defined nowhere in the sources. The spec speaks of a deviation
  that "persists for a minimum consecutive-day run"; \<open>longest_run_above\<close> is the length
  of the longest run of consecutive values above a threshold.
\<close>

fun longest_run_above :: "real list \<Rightarrow> real \<Rightarrow> nat" where
  "longest_run_above [] threshold = 0"
| "longest_run_above (x # xs) threshold =
     max (length (takeWhile (\<lambda>v. threshold < v) (x # xs)))
         (longest_run_above xs threshold)"

text \<open>
  Modelled from the spec: the helper built on \<open>longest_run_above\<close>. The spec speaks of
  finite thresholds only; for an infinite one the helper here counts nothing.
\<close>

definition run_counter :: "real list \<Rightarrow> real option \<Rightarrow> int" where
  "run_counter xs threshold =
     (case threshold of None \<Rightarrow> 0 | Some t \<Rightarrow> int (longest_run_above xs t))"

text \<open>
  A module to run the function in: the run counter as the helper, a fixed baseline and
  standard deviation, and, as in the README, no binding of \<^verbatim>\<open>consecutive_days\<close>.
\<close>

definition readme_module :: "real list \<Rightarrow> real \<Rightarrow> real \<Rightarrow> module_globals" where
  "readme_module recent baseline std =
     \<lparr>calculate_personal_baseline = (\<lambda>history. baseline),
      heart_rate_history = recent,
      count_consecutive_above_threshold = run_counter,
      recent_heart_rate = recent,
      std_deviation = std,
      consecutive_days = Unbound\<rparr>"

text \<open>A window has a run of \<open>k\<close> consecutive days above the threshold \<open>t\<close>.\<close>

definition has_run :: "nat \<Rightarrow> real \<Rightarrow> real list \<Rightarrow> bool" where
  "has_run k t xs =
     (\<exists>ys run zs. xs = ys @ run @ zs \<and> length run = k \<and> list_all (\<lambda>v. t < v) run)"

text \<open>
  A day deviates, in the spec's words, when its value lies beyond the baseline mean plus
  or minus two standard deviations.
\<close>

definition deviation_beyond :: "real \<Rightarrow> real \<Rightarrow> real \<Rightarrow> bool" where
  "deviation_beyond baseline std v = (baseline + 2 * std < v \<or> v < baseline - 2 * std)"

section \<open>The correlation engine\<close>

text \<open>
  Modelled from the spec: the correlation engine (spec section 4.2) is part of the
  backend, which is not in the sources; the README only names
  \<^verbatim>\<open>calculate_correlation\<close>. A metric series is a list of (day, value) pairs and a
  unified dataset maps each metric kind to its series.
\<close>

type_synonym metric_series = "(int \<times> real) list"

type_synonym unified_dataset = "(string \<times> metric_series) list"

text \<open>
  Modelled from the spec: "Align on shared dates (inner join)". The result pairs the
  two values of every day that both series have.
\<close>

fun align :: "metric_series \<Rightarrow> metric_series \<Rightarrow> (real \<times> real) list" where
  "align [] ys = []"
| "align ((d, v) # xs) ys =
     (case map_of ys d of None \<Rightarrow> align xs ys | Some w \<Rightarrow> (v, w) # align xs ys)"

text \<open>
  Modelled from the spec: the "lagged variant (pair aligned with a 1-day offset)", for
  "yesterday's X affects today's Y": the second series is moved back one day before
  aligning.
\<close>

definition shift_back :: "metric_series \<Rightarrow> metric_series" where
  "shift_back ys = map (\<lambda>(d, w). (d - 1, w)) ys"

text \<open>
  Modelled from the spec: "the linear correlation coefficient", the covariance divided
  by the product of the two standard deviations. The division has an error branch for
  a zero denominator.
\<close>

definition mean :: "real list \<Rightarrow> real" where
  "mean vs = sum_list vs / real (length vs)"

definition variance :: "real list \<Rightarrow> real" where
  "variance vs = sum_list (map (\<lambda>v. (v - mean vs)\<^sup>2) vs) / real (length vs)"

definition std_dev :: "real list \<Rightarrow> real" where
  "std_dev vs = sqrt (variance vs)"

definition covariance :: "real list \<Rightarrow> real list \<Rightarrow> real" where
  "covariance xs ys =
     sum_list (map (\<lambda>(x, y). (x - mean xs) * (y - mean ys)) (zip xs ys)) / real (length xs)"

datatype corr_error = ZeroVariance

definition pearson :: "real list \<Rightarrow> real list \<Rightarrow> corr_error + real" where
  "pearson xs ys =
     (if std_dev xs * std_dev ys = 0 then Inl ZeroVariance
      else Inr (covariance xs ys / (std_dev xs * std_dev ys)))"

text \<open>
  Modelled from the spec: an insight carries the correlation coefficient and a
  confidence; the two metric kinds, the variant and the sample size are kept as well,
  since ranking and the claim refer to them.
\<close>

record insight =
  metric_a :: string
  metric_b :: string
  lagged :: bool
  correlation :: real
  insight_confidence :: real
  sample_size :: nat

text \<open>
  Modelled from the spec: one pair of aligned series. Below the minimum sample size
  "no insight is emitted for that pair"; constant series (zero variance) "must be
  excluded, not reported as 0 or NaN"; the confidence is a function of sample size and
  absolute correlation "capped at 1.0". The spec leaves that function open, so it is
  the parameter \<open>conf\<close>.
\<close>

definition correlate ::
  "(nat \<Rightarrow> real \<Rightarrow> real) \<Rightarrow> nat \<Rightarrow> string \<Rightarrow> string \<Rightarrow> bool \<Rightarrow> (real \<times> real) list
   \<Rightarrow> corr_error + insight option" where
  "correlate conf min_samples a b lag pts =
     (let xs = map fst pts; ys = map snd pts
      in if length pts < min_samples then Inr None
         else if variance xs = 0 \<or> variance ys = 0 then Inr None
         else (case pearson xs ys of
                 Inl e \<Rightarrow> Inl e
               | Inr r \<Rightarrow>
                   Inr (Some \<lparr>metric_a = a, metric_b = b, lagged = lag, correlation = r,
                              insight_confidence = min 1 (conf (length pts) \<bar>r\<bar>),
                              sample_size = length pts\<rparr>)))"

text \<open>
  Modelled from the spec: the engine "operates on pairs of metric series within a
  UnifiedDataset" and computes, for each pair, the coefficient and its lagged variant.
\<close>

fun pairs_of :: "'a list \<Rightarrow> ('a \<times> 'a) list" where
  "pairs_of [] = []"
| "pairs_of (x # xs) = map (Pair x) xs @ pairs_of xs"

definition pair_results ::
  "(nat \<Rightarrow> real \<Rightarrow> real) \<Rightarrow> nat \<Rightarrow> (string \<times> metric_series) \<times> (string \<times> metric_series)
   \<Rightarrow> (corr_error + insight option) list" where
  "pair_results conf min_samples pq =
     (case pq of ((a, s), (b, t)) \<Rightarrow>
        [correlate conf min_samples a b False (align s t),
         correlate conf min_samples a b True (align s (shift_back t))])"

text \<open>
  Modelled from the spec: the insights of all pairs are gathered; an error of any pair
  would be the error of the whole analysis.
\<close>

fun collect :: "(corr_error + 'a option) list \<Rightarrow> corr_error + 'a list" where
  "collect [] = Inr []"
| "collect (r # rs) =
     (case r of
        Inl e \<Rightarrow> Inl e
      | Inr found \<Rightarrow>
          (case collect rs of
             Inl e \<Rightarrow> Inl e
           | Inr xs \<Rightarrow> Inr (case found of None \<Rightarrow> xs | Some x \<Rightarrow> x # xs)))"

text \<open>
  Modelled from the spec: "Rank insights by |correlation| x confidence, descending;
  return the top-K", with "ties broken by sample size (larger wins), then by
  metric-kind name".
\<close>

definition score :: "insight \<Rightarrow> real" where
  "score i = \<bar>correlation i\<bar> * insight_confidence i"

definition ranks_before :: "insight \<Rightarrow> insight \<Rightarrow> bool" where
  "ranks_before i j =
     (score i > score j
      \<or> (score i = score j
          \<and> (sample_size i > sample_size j
              \<or> (sample_size i = sample_size j
                  \<and> (metric_a i < metric_a j
                      \<or> (metric_a i = metric_a j \<and> metric_b i \<le> metric_b j))))))"

fun insert_ranked :: "insight \<Rightarrow> insight list \<Rightarrow> insight list" where
  "insert_ranked i [] = [i]"
| "insert_ranked i (j # js) = (if ranks_before i j then i # j # js else j # insert_ranked i js)"

definition rank :: "insight list \<Rightarrow> insight list" where
  "rank found = foldr insert_ranked found []"

text \<open>
  Modelled from the spec: the insight part of \<^verbatim>\<open>analyze(user, dataset)\<close>; warnings,
  recommendations and predictions are other components.
\<close>

definition analyze_insights ::
  "(nat \<Rightarrow> real \<Rightarrow> real) \<Rightarrow> nat \<Rightarrow> nat \<Rightarrow> unified_dataset \<Rightarrow> corr_error + insight list" where
  "analyze_insights conf min_samples top_k ds =
     (case collect (concat (map (pair_results conf min_samples) (pairs_of ds))) of
        Inl e \<Rightarrow> Inl e
      | Inr found \<Rightarrow> Inr (take top_k (rank found)))"

text \<open>A series is constant-valued; an insight references a metric kind.\<close>

definition constant_series :: "metric_series \<Rightarrow> bool" where
  "constant_series s = (case s of [] \<Rightarrow> True | p # ps \<Rightarrow> list_all (\<lambda>q. snd q = snd p) ps)"

definition references :: "string \<Rightarrow> insight \<Rightarrow> bool" where
  "references k i = (metric_a i = k \<or> metric_b i = k)"

text \<open>
  A week in which sleep and heart rate move against each other while calories stay at
  2000.
\<close>

definition week_dataset :: unified_dataset where
  "week_dataset =
     [(''sleep'', [(1, 6), (2, 7), (3, 8), (4, 6), (5, 7), (6, 8), (7, 7)]),
      (''heart_rate'', [(1, 64), (2, 63), (3, 62), (4, 64), (5, 63), (6, 62), (7, 63)]),
      (''calories'', [(1, 2000), (2, 2000), (3, 2000), (4, 2000), (5, 2000), (6, 2000), (7, 2000)])]"

chapter \<open>Theorems\<close>

section \<open>Properties of the day navigation\<close>

lemma sleep_length_or_1_nonempty:
  "sleep_series payload = Some s \<Longrightarrow> s \<noteq> [] \<Longrightarrow>
   sleep_length_or_1 payload = int (length s)"
  by (simp add: sleep_length_or_1_def)

lemma nav_step_in_bounds:
  assumes "sleep_series payload = Some s" and "s \<noteq> []"
    and "0 \<le> i" and "i \<le> int (length s) - 1"
  shows "0 \<le> nav_step payload i ev \<and> nav_step payload i ev \<le> int (length s) - 1"
proof -
  have len: "sleep_length_or_1 payload = int (length s)"
    using assms(1,2) by (rule sleep_length_or_1_nonempty)
  have pos: "0 \<le> int (length s) - 1"
    using assms(2) by (cases s) simp_all
  show ?thesis
    using assms(3,4) pos
    by (cases ev) (auto simp add: previous_day_def next_day_def len)
qed

lemma foldl_nav_step_in_bounds:
  assumes "sleep_series payload = Some s" and "s \<noteq> []"
  shows "0 \<le> i \<Longrightarrow> i \<le> int (length s) - 1 \<Longrightarrow>
         0 \<le> foldl (nav_step payload) i events \<and>
         foldl (nav_step payload) i events \<le> int (length s) - 1"
proof (induction events arbitrary: i)
  case Nil
  then show ?case by simp
next
  case (Cons ev events)
  have "0 \<le> nav_step payload i ev \<and> nav_step payload i ev \<le> int (length s) - 1"
    using assms Cons.prems by (rule nav_step_in_bounds)
  then show ?case
    using Cons.IH by simp
qed

text \<open>
  Claim C10. For a loaded dataset whose sleep series \<open>s\<close> is non-empty, the
  "previous day" handler maps \<open>i\<close> to \<open>min (length s - 1) (i + 1)\<close>, the "next day"
  handler maps \<open>i\<close> to \<open>max 0 (i - 1)\<close>, the index is 0 when the data has just loaded,
  and after any sequence of loads and clicks the index lies in \<open>[0, length s - 1]\<close>.
\<close>

theorem day_index_in_bounds:
  assumes "sleep_series payload = Some s" and "s \<noteq> []"
  shows "previous_day payload i = min (int (length s) - 1) (i + 1)
       \<and> next_day i = max 0 (i - 1)
       \<and> navigate payload (events @ [DataLoaded]) = 0
       \<and> 0 \<le> navigate payload events
       \<and> navigate payload events \<le> int (length s) - 1"
proof -
  have len: "sleep_length_or_1 payload = int (length s)"
    using assms by (rule sleep_length_or_1_nonempty)
  have pos: "(0::int) \<le> int (length s) - 1"
    using assms(2) by (cases s) simp_all
  have "0 \<le> foldl (nav_step payload) 0 events \<and>
        foldl (nav_step payload) 0 events \<le> int (length s) - 1"
    using assms _ pos by (rule foldl_nav_step_in_bounds) simp
  then show ?thesis
    by (simp add: previous_day_def next_day_def len navigate_def)
qed

theorem day_index_in_bounds_witness:
  "previous_day (Some demo_health_data) 2 = 2
   \<and> next_day 2 = 1
   \<and> navigate (Some demo_health_data) [ClickPrevious, ClickPrevious, ClickPrevious, DataLoaded] = 0
   \<and> 0 \<le> navigate (Some demo_health_data) [ClickPrevious, ClickPrevious, ClickPrevious]
   \<and> navigate (Some demo_health_data) [ClickPrevious, ClickPrevious, ClickPrevious] \<le> 2"
proof -
  have s: "sleep_series (Some demo_health_data) = Some demo_sleep"
    by (simp add: sleep_series_def metric_series_def demo_health_data_def)
  have n: "demo_sleep \<noteq> []"
    by (simp add: demo_sleep_def)
  have l: "int (length demo_sleep) - 1 = 2"
    by (simp add: demo_sleep_def)
  show ?thesis
    using day_index_in_bounds [OF s n, of 2 "[ClickPrevious, ClickPrevious, ClickPrevious]"]
    by (simp add: l)
qed

section \<open>Properties of the empty state\<close>

text \<open>
  Claim C9. Once the payload is there, the "No Health Data Connected" box is shown
  exactly when the metrics object has no key, or has no \<^verbatim>\<open>sleep\<close> key, or its
  sleep series is empty; and whenever the sleep series is missing or empty (so also for
  a payload with steps, heart rate or calories only) neither metric cards nor charts are
  rendered.
\<close>

theorem empty_state_iff:
  assumes "healthData st = Some h"
  shows "(EmptyState \<in> set (Dashboard st)) =
           (metrics h = Some [] \<or> sleep_series (Some h) = None \<or> sleep_series (Some h) = Some [])
       \<and> (sleep_series (Some h) = None \<or> sleep_series (Some h) = Some []
            \<longrightarrow> filter is_metrics_or_charts (Dashboard st) = [])"
  using assms
  by (auto simp add: Dashboard_def hasData_def sleep_series_def metric_series_def
      split: option.splits)

theorem empty_state_iff_witness:
  "healthData (initial_state\<lparr>healthData := Some steps_only_data\<rparr>) = Some steps_only_data
   \<and> sleep_series (Some steps_only_data) = None
   \<and> EmptyState \<in> set (Dashboard (initial_state\<lparr>healthData := Some steps_only_data\<rparr>))
   \<and> filter is_metrics_or_charts (Dashboard (initial_state\<lparr>healthData := Some steps_only_data\<rparr>)) = []"
proof -
  have h: "healthData (initial_state\<lparr>healthData := Some steps_only_data\<rparr>) = Some steps_only_data"
    by simp
  have s: "sleep_series (Some steps_only_data) = None"
    by (simp add: sleep_series_def metric_series_def steps_only_data_def)
  show ?thesis
    using empty_state_iff [OF h] s by simp
qed

section \<open>Properties of the rounding to binary64\<close>

lemma round_ties_even_close: "\<bar>of_int (round_ties_even y) - y\<bar> \<le> 1 / 2"
  unfolding round_ties_even_def Let_def by (auto; linarith)

lemma round_ties_even_of_int: "round_ties_even (of_int z) = z"
  by (simp add: round_ties_even_def)

lemma floor_log2_bounds:
  assumes "0 < x"
  shows "2 powr of_int \<lfloor>log 2 x\<rfloor> \<le> x" and "x < 2 powr (of_int \<lfloor>log 2 x\<rfloor> + 1)"
  using floor_log_eq_powr_iff [of x 2 "\<lfloor>log 2 x\<rfloor>"] assms by simp_all



lemma binary64_of_int:
  assumes "\<bar>m\<bar> < 2 ^ 53"
  shows "binary64 (of_int m) = Some (of_int m)"
proof (cases "m = 0")
  case True
  then show ?thesis by (simp add: binary64_def)
next
  case False
  define x :: real where "x = \<bar>of_int m\<bar>"
  have x1: "1 \<le> x" using False by (simp add: x_def)
  have x53: "x < 2 ^ 53" using assms unfolding x_def
    by (metis of_int_abs of_int_less_numeral_power_cancel_iff)
  define k where "k = \<lfloor>log 2 x\<rfloor>"
  have kb: "2 powr of_int k \<le> x" "x < 2 powr (of_int k + 1)"
    unfolding k_def using floor_log2_bounds [of x] x1 by simp_all
  have "0 \<le> log 2 x" using x1 by simp
  then have k0: "0 \<le> k" by (simp add: k_def)
  have "k < 53"
  proof (rule ccontr)
    assume "\<not> k < 53"
    then have k53: "53 \<le> nat k" "0 \<le> k" by simp_all
    have "(2::real) ^ 53 \<le> 2 ^ nat k" using k53(1) by (intro power_increasing) simp_all
    moreover have "2 powr of_int k = (2::real) ^ nat k" using k53(2) by (simp add: powr_real_of_int)
    ultimately show False using kb(1) x53 by linarith
  qed
  then have k52: "k \<le> 52" by simp
  define j where "j = nat (52 - k)"
  have e: "max (k - 52) (- 1074) = k - 52" using k0 by simp
  have "k - 52 = - int j" using k52 by (simp add: j_def)
  then have "2 powr real_of_int (k - 52) = 2 powr (- real j)" by simp
  also have "\<dots> = 1 / 2 ^ j" by (simp add: powr_minus powr_realpow inverse_eq_divide)
  finally have p: "2 powr real_of_int (k - 52) = 1 / 2 ^ j" .
  have q: "real_of_int m / (1 / 2 ^ j) = of_int (m * 2 ^ j)"
    by simp
  have fin: "\<bar>real_of_int m\<bar> < 2 ^ 1024"
  proof -
    have "\<bar>real_of_int m\<bar> < 2 ^ 53" using x53 by (simp add: x_def)
    also have "\<dots> \<le> (2::real) ^ 1024" by (rule power_increasing) simp_all
    finally show ?thesis .
  qed
  have "binary64 (of_int m) = Some (of_int m)"
    unfolding binary64_def Let_def x_def[symmetric] k_def[symmetric] e p q round_ties_even_of_int
    using False fin by simp
  then show ?thesis .
qed

lemma binary64_numeral:
  "(numeral n :: int) < 2 ^ 53 \<Longrightarrow> binary64 (numeral n) = Some (numeral n)"
  using binary64_of_int [of "numeral n"] by simp





lemma binary64_normal:
  assumes "2 powr of_int k \<le> \<bar>x\<bar>" and "\<bar>x\<bar> < 2 powr (of_int k + 1)"
    and "- 1022 \<le> k" and "k \<le> 1022"
  shows "binary64 x
         = Some (of_int (round_ties_even (x / 2 powr of_int (k - 52))) * 2 powr of_int (k - 52))"
proof -
  have pos: "0 < \<bar>x\<bar>" using assms(1) by (smt (verit) powr_gt_zero)
  then have x0: "x \<noteq> 0" by simp
  have fl: "\<lfloor>log 2 \<bar>x\<bar>\<rfloor> = k"
    using floor_log_eq_powr_iff [of "\<bar>x\<bar>" 2 k] pos assms(1,2) by simp
  have e: "max (k - 52) (- 1074) = k - 52" using assms(3) by simp
  define p :: real where "p = 2 powr of_int (k - 52)"
  have p: "0 < p" by (simp add: p_def)
  define n where "n = round_ties_even (x / p)"
  have "\<bar>of_int n - x / p\<bar> \<le> 1 / 2" unfolding n_def by (rule round_ties_even_close)
  then have "\<bar>of_int n - x / p\<bar> * p \<le> 1 / 2 * p" using p by (intro mult_right_mono) simp_all
  moreover have "\<bar>of_int n - x / p\<bar> * p = \<bar>of_int n * p - x\<bar>"
    using p by (simp add: abs_mult[symmetric, of _ p] field_simps del: abs_mult)
  ultimately have close: "\<bar>of_int n * p - x\<bar> \<le> p / 2" by simp
  have "p = 2 powr of_int k / 2 ^ 52" by (simp add: p_def powr_diff)
  then have "p / 2 = 2 powr of_int k / 2 ^ 53" by simp
  also have "\<dots> \<le> 2 powr of_int k / 1" by (intro divide_left_mono) simp_all
  finally have "p / 2 \<le> 2 powr of_int k" by simp
  then have "\<bar>of_int n * p\<bar> \<le> \<bar>x\<bar> + 2 powr of_int k" using close by linarith
  also have "\<dots> < 2 powr (of_int k + 1) + 2 powr (of_int k + 1)"
    using assms(1,2) by linarith
  also have "\<dots> = 2 powr (of_int k + 2)" by (simp add: powr_add)
  also have "\<dots> \<le> 2 powr 1024" using assms(4) by (intro powr_mono) simp_all
  also have "\<dots> = 2 ^ 1024" by (simp only: powr_numeral)
  finally have fin: "\<bar>of_int n * p\<bar> < 2 ^ 1024" .
  show ?thesis
    unfolding binary64_def Let_def fl e p_def[symmetric] n_def[symmetric]
    using x0 fin by simp
qed

lemma binary64_subnormal:
  assumes "x \<noteq> 0" and "\<bar>x\<bar> < 1 / 2 ^ 1022"
  shows "binary64 x = Some (of_int (round_ties_even (x * 2 ^ 1074)) / 2 ^ 1074)"
proof -
  have pos: "0 < \<bar>x\<bar>" using assms(1) by simp
  have "\<bar>x\<bar> < 2 powr (- 1022)" using assms(2) by (simp add: powr_minus inverse_eq_divide)
  then have "log 2 \<bar>x\<bar> < - 1022" using pos by (simp add: log_less_iff)
  define k where "k = \<lfloor>log 2 \<bar>x\<bar>\<rfloor>"
  have "k < - 1022" unfolding k_def using \<open>log 2 \<bar>x\<bar> < - 1022\<close> by linarith
  then have "max (k - 52) (- 1074) = - 1074" by simp
  then have e: "max (\<lfloor>log 2 \<bar>x\<bar>\<rfloor> - 52) (- 1074) = - 1074" unfolding k_def .
  have p: "2 powr real_of_int (- 1074) = 1 / 2 ^ 1074"
    by (simp add: powr_minus inverse_eq_divide)
  define P :: real where "P = 2 ^ 1074"
  have P: "0 < P" "1 \<le> P" unfolding P_def by (simp_all add: one_le_power)
  define n where "n = round_ties_even (x * P)"
  have "\<bar>of_int n - x * P\<bar> \<le> 1 / 2" unfolding n_def by (rule round_ties_even_close)
  then have "\<bar>of_int n - x * P\<bar> / P \<le> 1 / 2 / P"
    using P by (intro divide_right_mono) simp_all
  moreover have "of_int n / P - x = (of_int n - x * P) / P"
    using P by (simp add: field_simps)
  then have "\<bar>of_int n - x * P\<bar> / P = \<bar>of_int n / P - x\<bar>"
    using P by simp
  moreover have "1 / 2 / P \<le> 1" using P by (simp add: divide_le_eq)
  ultimately have "\<bar>of_int n / P - x\<bar> \<le> 1" by linarith
  moreover have "(1::real) / 2 ^ 1022 \<le> 1" by (simp add: divide_le_eq_1)
  ultimately have "\<bar>real_of_int n / P\<bar> < 2" using assms(2) by linarith
  also have "(2::real) \<le> 2 ^ 1024" using power_increasing [of 1 1024 "2::real"] by simp
  finally have fin: "\<bar>real_of_int n / 2 ^ 1074\<bar> < 2 ^ 1024" unfolding P_def .
  have n: "n = round_ties_even (x * 2 ^ 1074)" by (simp add: n_def P_def)
  have "x / (1 / 2 ^ 1074) = x * 2 ^ 1074" by simp
  then show ?thesis
    unfolding binary64_def Let_def e p
    using assms(1) fin by (simp add: n)
qed



section \<open>Properties of the weekly averages\<close>











text \<open>
  The rounding at work. One night of 1.05 hours is shown as 0.1: the payload's 1.05
  parses to the number just above it, and the seventh of that rounds to the number just
  below 0.15.
\<close>

lemma one_night_shown:
  "avg_sleep_shown
     (Some \<lparr>metrics = Some [(''sleep'', [\<lparr>dp_date = ''2024-03-01'', dp_value = 21 / 20\<rparr>])],
            source = None\<rparr>)
   = Some (1 / 10)"
proof -
  have a: "binary64 (21 / 20) = Some (4728779608739021 / 2 ^ 52)"
    using binary64_normal [of 0 "21 / 20"]
    by (simp add: round_ties_even_def powr_minus)
  have b: "binary64 (4728779608739021 / 2 ^ 52) = Some (4728779608739021 / 2 ^ 52)"
    using binary64_normal [of 0 "4728779608739021 / 2 ^ 52"]
    by (simp add: round_ties_even_def powr_minus)
  have c: "binary64 (4728779608739021 / 2 ^ 52 / 7) = Some (5404319552844595 / 2 ^ 55)"
    using binary64_normal [of "- 3" "4728779608739021 / 2 ^ 52 / 7"]
    by (simp add: round_ties_even_def powr_minus)
  have d: "to_fixed 1 (5404319552844595 / 2 ^ 55) = 1 / 10"
    by (simp add: to_fixed_def)
  have "sum_values [\<lparr>dp_date = ''2024-03-01'', dp_value = 21 / 20\<rparr>]
        = Some (4728779608739021 / 2 ^ 52)"
    using b by (simp add: sum_values_def js_plus_def a)
  then have "weekly_quotient [\<lparr>dp_date = ''2024-03-01'', dp_value = 21 / 20\<rparr>]
        = Some (5404319552844595 / 2 ^ 55)"
    using c by (simp add: weekly_quotient_def js_slice_from_def js_divide_def)
  then show ?thesis
    using d by (simp add: avg_sleep_shown_def sleep_series_def metric_series_def)
qed

text \<open>
  Below the range of the normal numbers the quotient need not stay under the mean: for
  six days of the smallest positive number the sum is six times that number, and its
  seventh rounds back up to the number itself, which is the mean.
\<close>

lemma smallest_entries_quotient:
  "weekly_quotient tiny_steps = Some (1 / 2 ^ 1074) \<and> arithmetic_mean tiny_steps = 1 / 2 ^ 1074"
proof -
  have r: "binary64 (real_of_int j / 2 ^ 1074) = Some (real_of_int j / 2 ^ 1074)"
    if "0 < j" "j < 7" for j
  proof -
    have "real_of_int j / 2 ^ 1074 \<le> 7 / 2 ^ 1074" using that by (intro divide_right_mono) simp_all
    also have "\<dots> < (1::real) / 2 ^ 1022" by (simp add: field_simps)
    finally have "\<bar>real_of_int j / 2 ^ 1074\<bar> < 1 / 2 ^ 1022" using that by simp
    moreover have "real_of_int j / 2 ^ 1074 \<noteq> 0" using that by simp
    ultimately show ?thesis
      using binary64_subnormal [of "real_of_int j / 2 ^ 1074"]
      by (simp add: round_ties_even_of_int)
  qed
  have s: "binary64 (6 / 2 ^ 1074 / 7) = Some (1 / 2 ^ 1074)"
    using binary64_subnormal [of "6 / 2 ^ 1074 / 7"]
    by (simp add: round_ties_even_def field_simps)
  have a: "sum_values tiny_steps = Some (6 / 2 ^ 1074)"
    using r [of 1] r [of 2] r [of 3] r [of 4] r [of 5] r [of 6]
    by (simp add: sum_values_def tiny_steps_def js_plus_def numeral_eq_Suc)
  have "weekly_quotient tiny_steps = Some (1 / 2 ^ 1074)"
    using a s by (simp add: weekly_quotient_def js_slice_from_def js_divide_def tiny_steps_def)
  moreover have "arithmetic_mean tiny_steps = 1 / 2 ^ 1074"
    by (simp add: arithmetic_mean_def tiny_steps_def sum_list_replicate)
  ultimately show ?thesis by simp
qed




section \<open>Properties of the two chats\<close>

lemma sendChatMessage_reply:
  "\<not> js_blank question \<Longrightarrow> \<not> isLoadingChat st \<Longrightarrow>
   sendChatMessage (Reply r c) question st
     = Inr (st\<lparr>chatMessages := chatMessages st @ [user_entry question, ai_entry r c],
              chatInput := [], isLoadingChat := False\<rparr>)"
  by (simp add: sendChatMessage_def chat_request_def sendChatMessage_settle_def
      sendChatMessage_begin_def append_reply_def reply_properties_def)

lemma sendChatMessage_failed:
  "\<not> js_blank question \<Longrightarrow> \<not> isLoadingChat st \<Longrightarrow>
   reply = FetchRejected \<or> reply = Responded NotJson \<Longrightarrow>
   sendChatMessage reply question st
     = Inr (st\<lparr>chatMessages := chatMessages st @ [user_entry question, apology_entry],
              chatInput := [], isLoadingChat := False\<rparr>)"
  by (auto simp add: sendChatMessage_def chat_request_def sendChatMessage_settle_def
      sendChatMessage_begin_def append_apology_def)

lemma settled_reply_cases:
  "reply \<noteq> NeverSettles \<Longrightarrow> reply \<noteq> Responded (Json JsonNull) \<Longrightarrow>
   reply = FetchRejected \<or> reply = Responded NotJson \<or> (\<exists>r c. reply = Reply r c)"
proof (cases reply)
  case (Responded body)
  assume "reply \<noteq> Responded (Json JsonNull)"
  then show ?thesis
    unfolding Responded
    by (cases body) (auto, metis json_value.exhaust)
qed simp_all

text \<open>
  A \<^verbatim>\<open>null\<close> body on the two pages. On the dashboard the updater that reads
  \<^verbatim>\<open>data.response\<close> throws when React calls it, and the \<^verbatim>\<open>catch\<close> block does not
  run; on the trainer page the read is inside the \<^verbatim>\<open>try\<close> block and the fixed
  sentence of the \<^verbatim>\<open>catch\<close> block is appended.
\<close>

lemma null_body_on_both_pages:
  "sendChatMessage (Responded (Json JsonNull)) ''Should I take a rest day?'' initial_state
     = Inl TypeError
   \<and> trainerMessages
        (askQuestion (Responded (Json JsonNull)) ''10:01:00 AM'' ''10:01:02 AM'' demo_trainer_state)
       = [\<lparr>t_type = User, t_message = ''Should I go to bed earlier?'', timestamp = ''10:01:00 AM''\<rparr>,
          \<lparr>t_type = AI, t_message = ''Sorry, there was an error processing your question.'',
           timestamp = ''10:01:02 AM''\<rparr>]"
  by (simp add: sendChatMessage_def chat_request_def sendChatMessage_settle_def
      sendChatMessage_begin_def append_reply_def reply_properties_def askQuestion_def
      askQuestion_begin_def trainer_answer_def js_blank_def js_trim_def js_whitespace_def
      initial_state_def demo_trainer_state_def)

text \<open>
  Claim C7, as the code has it. On the dashboard a chat invocation with a non-blank
  question, while no other request is loading, whose request settles with anything but
  a \<^verbatim>\<open>null\<close> body, ends with the transcript extended by the user's entry and
  exactly one AI entry (the reply's text and confidence, or the fixed apology when the
  request fails or the body is not JSON), the input cleared and the loading flag
  cleared; a blank question, or an invocation while a request is loading, changes
  nothing. On the trainer page a non-blank question, once model information is held
  and the request settles, ends with the user's entry and exactly one AI entry (the
  reply's text, or one of two fixed sentences) and with the asking flag cleared; a blank
  question or missing model information changes nothing.
\<close>

theorem chat_appends_one_answer:
  "(\<not> js_blank question \<and> \<not> isLoadingChat st
      \<and> reply \<noteq> NeverSettles \<and> reply \<noteq> Responded (Json JsonNull) \<longrightarrow>
      (\<exists>entry.
         sendChatMessage reply question st
           = Inr (st\<lparr>chatMessages := chatMessages st @ [user_entry question, entry],
                    chatInput := [], isLoadingChat := False\<rparr>)
         \<and> msg_type (user_entry question) = User
         \<and> msg_type entry = AI
         \<and> ((reply = FetchRejected \<or> reply = Responded NotJson) \<and> entry = apology_entry
              \<or> (\<exists>r c. reply = Reply r c \<and> entry = ai_entry r c))))
   \<and> (js_blank question \<or> isLoadingChat st \<longrightarrow> sendChatMessage reply question st = Inr st)
   \<and> (\<not> js_blank (currentQuestion ts) \<and> modelInfo ts \<noteq> None
        \<and> chat_request reply = Some settled \<longrightarrow>
        askQuestion reply asked_at answered_at ts
          = ts\<lparr>trainerMessages :=
                 trainerMessages ts
                 @ [\<lparr>t_type = User, t_message = currentQuestion ts, timestamp = asked_at\<rparr>,
                    \<lparr>t_type = AI, t_message = trainer_answer settled, timestamp = answered_at\<rparr>],
               currentQuestion := [],
               isAsking := False\<rparr>)
   \<and> (js_blank (currentQuestion ts) \<or> modelInfo ts = None \<longrightarrow>
        askQuestion reply asked_at answered_at ts = ts)"
proof -
  have dashboard: "\<not> js_blank question \<and> \<not> isLoadingChat st
      \<and> reply \<noteq> NeverSettles \<and> reply \<noteq> Responded (Json JsonNull) \<longrightarrow>
      (\<exists>entry.
         sendChatMessage reply question st
           = Inr (st\<lparr>chatMessages := chatMessages st @ [user_entry question, entry],
                    chatInput := [], isLoadingChat := False\<rparr>)
         \<and> msg_type (user_entry question) = User
         \<and> msg_type entry = AI
         \<and> ((reply = FetchRejected \<or> reply = Responded NotJson) \<and> entry = apology_entry
              \<or> (\<exists>r c. reply = Reply r c \<and> entry = ai_entry r c)))"
  proof
    assume h: "\<not> js_blank question \<and> \<not> isLoadingChat st
      \<and> reply \<noteq> NeverSettles \<and> reply \<noteq> Responded (Json JsonNull)"
    then consider "reply = FetchRejected \<or> reply = Responded NotJson"
      | r c where "reply = Reply r c"
      using settled_reply_cases [of reply] by blast
    then show "\<exists>entry.
         sendChatMessage reply question st
           = Inr (st\<lparr>chatMessages := chatMessages st @ [user_entry question, entry],
                    chatInput := [], isLoadingChat := False\<rparr>)
         \<and> msg_type (user_entry question) = User
         \<and> msg_type entry = AI
         \<and> ((reply = FetchRejected \<or> reply = Responded NotJson) \<and> entry = apology_entry
              \<or> (\<exists>r c. reply = Reply r c \<and> entry = ai_entry r c))"
    proof cases
      case 1
      have "sendChatMessage reply question st
          = Inr (st\<lparr>chatMessages := chatMessages st @ [user_entry question, apology_entry],
                   chatInput := [], isLoadingChat := False\<rparr>)"
        using h 1 by (intro sendChatMessage_failed) simp_all
      moreover have "msg_type (user_entry question) = User" "msg_type apology_entry = AI"
        by (simp_all add: user_entry_def apology_entry_def)
      ultimately show ?thesis using 1 by blast
    next
      case 2
      have "sendChatMessage reply question st
          = Inr (st\<lparr>chatMessages := chatMessages st @ [user_entry question, ai_entry r c],
                   chatInput := [], isLoadingChat := False\<rparr>)"
        unfolding 2 using h by (intro sendChatMessage_reply) simp_all
      moreover have "msg_type (user_entry question) = User" "msg_type (ai_entry r c) = AI"
        by (simp_all add: user_entry_def ai_entry_def)
      ultimately show ?thesis using 2 by blast
    qed
  qed
  have guard: "js_blank question \<or> isLoadingChat st \<longrightarrow> sendChatMessage reply question st = Inr st"
    by (simp add: sendChatMessage_def)
  have trainer: "\<not> js_blank (currentQuestion ts) \<and> modelInfo ts \<noteq> None
        \<and> chat_request reply = Some settled \<longrightarrow>
        askQuestion reply asked_at answered_at ts
          = ts\<lparr>trainerMessages :=
                 trainerMessages ts
                 @ [\<lparr>t_type = User, t_message = currentQuestion ts, timestamp = asked_at\<rparr>,
                    \<lparr>t_type = AI, t_message = trainer_answer settled, timestamp = answered_at\<rparr>],
               currentQuestion := [],
               isAsking := False\<rparr>"
    by (simp add: askQuestion_def askQuestion_begin_def)
  have trainer_guard: "js_blank (currentQuestion ts) \<or> modelInfo ts = None \<longrightarrow>
        askQuestion reply asked_at answered_at ts = ts"
    by (simp add: askQuestion_def)
  from dashboard guard trainer trainer_guard show ?thesis
    by (intro conjI)
qed

theorem chat_appends_one_answer_witness:
  "\<not> js_blank ''Should I take a rest day?'' \<and> \<not> isLoadingChat initial_state
   \<and> FetchRejected \<noteq> NeverSettles \<and> FetchRejected \<noteq> Responded (Json JsonNull)
   \<and> sendChatMessage FetchRejected ''Should I take a rest day?'' initial_state
       = Inr (initial_state\<lparr>chatMessages := [user_entry ''Should I take a rest day?'', apology_entry]\<rparr>)
   \<and> js_blank ''   ''
   \<and> sendChatMessage FetchRejected ''   '' initial_state = Inr initial_state
   \<and> \<not> js_blank (currentQuestion demo_trainer_state) \<and> modelInfo demo_trainer_state \<noteq> None
   \<and> chat_request (Reply None None) = Some (Inr (JsonObject None None))
   \<and> askQuestion (Reply None None) ''10:01:00 AM'' ''10:01:02 AM'' demo_trainer_state
       = demo_trainer_state
           \<lparr>trainerMessages :=
              [\<lparr>t_type = User, t_message = ''Should I go to bed earlier?'', timestamp = ''10:01:00 AM''\<rparr>,
               \<lparr>t_type = AI, t_message = ''Sorry, I couldn't process that question.'',
                timestamp = ''10:01:02 AM''\<rparr>],
            currentQuestion := []\<rparr>
   \<and> modelInfo (demo_trainer_state\<lparr>modelInfo := None\<rparr>) = None
   \<and> askQuestion (Reply None None) ''10:01:00 AM'' ''10:01:02 AM''
         (demo_trainer_state\<lparr>modelInfo := None\<rparr>)
       = demo_trainer_state\<lparr>modelInfo := None\<rparr>"
proof -
  have a: "\<not> js_blank ''Should I take a rest day?''" "\<not> isLoadingChat initial_state"
    by (simp_all add: js_blank_def js_trim_def js_whitespace_def initial_state_def)
  have a': "js_blank ''   ''"
    by (simp add: js_blank_def js_trim_def js_whitespace_def)
  have b: "\<not> js_blank (currentQuestion demo_trainer_state)" "modelInfo demo_trainer_state \<noteq> None"
    by (simp_all add: js_blank_def js_trim_def js_whitespace_def demo_trainer_state_def)
  have b': "modelInfo (demo_trainer_state\<lparr>modelInfo := None\<rparr>) = None"
    by simp
  have c: "chatMessages initial_state = []" "chatInput initial_state = []"
    "trainerMessages demo_trainer_state = []" "\<not> isAsking demo_trainer_state"
    "currentQuestion demo_trainer_state = ''Should I go to bed earlier?''"
    by (simp_all add: initial_state_def demo_trainer_state_def)
  have e: "chat_request (Reply None None) = Some (Inr (JsonObject None None))"
    by (simp add: chat_request_def)
  have f: "trainer_answer (Inr (JsonObject None None)) = ''Sorry, I couldn't process that question.''"
    by (simp add: trainer_answer_def reply_properties_def)
  have g: "initial_state\<lparr>chatMessages := ms, chatInput := [], isLoadingChat := False\<rparr>
           = initial_state\<lparr>chatMessages := ms\<rparr>" for ms
    by (simp add: initial_state_def)
  have h: "demo_trainer_state\<lparr>trainerMessages := ms, currentQuestion := [], isAsking := False\<rparr>
           = demo_trainer_state\<lparr>trainerMessages := ms, currentQuestion := []\<rparr>" for ms
    by (simp add: demo_trainer_state_def)
  have sent: "sendChatMessage FetchRejected ''Should I take a rest day?'' initial_state
       = Inr (initial_state\<lparr>chatMessages := [user_entry ''Should I take a rest day?'', apology_entry]\<rparr>)"
    using chat_appends_one_answer
        [where question = "''Should I take a rest day?''" and st = initial_state
           and reply = FetchRejected]
      a c
    by (auto simp add: g)
  have guarded: "sendChatMessage FetchRejected ''   '' initial_state = Inr initial_state"
    using chat_appends_one_answer [where question = "''   ''" and st = initial_state
        and reply = FetchRejected] a'
    by blast
  have asked: "askQuestion (Reply None None) ''10:01:00 AM'' ''10:01:02 AM'' demo_trainer_state
       = demo_trainer_state
           \<lparr>trainerMessages :=
              [\<lparr>t_type = User, t_message = ''Should I go to bed earlier?'', timestamp = ''10:01:00 AM''\<rparr>,
               \<lparr>t_type = AI, t_message = ''Sorry, I couldn't process that question.'',
                timestamp = ''10:01:02 AM''\<rparr>],
            currentQuestion := []\<rparr>"
    using chat_appends_one_answer
        [where reply = "Reply None None" and ts = demo_trainer_state
           and settled = "Inr (JsonObject None None)"
           and asked_at = "''10:01:00 AM''" and answered_at = "''10:01:02 AM''"]
      b c e f
    by (simp add: h)
  have dropped: "askQuestion (Reply None None) ''10:01:00 AM'' ''10:01:02 AM''
         (demo_trainer_state\<lparr>modelInfo := None\<rparr>)
       = demo_trainer_state\<lparr>modelInfo := None\<rparr>"
    using chat_appends_one_answer
        [where reply = "Reply None None" and ts = "demo_trainer_state\<lparr>modelInfo := None\<rparr>"
           and asked_at = "''10:01:00 AM''" and answered_at = "''10:01:02 AM''"]
      b'
    by blast
  show ?thesis
    using a a' b b' e sent guarded asked dropped by (intro conjI) simp_all
qed

text \<open>
  The claim as first worded covers every invocation. A question of three spaces returns
  before anything is appended, and so does any question while a request is loading (the
  flag then stays set); on the trainer page a question asked before any model
  information is held is dropped as well. And when the request never settles, the
  user's entry is the last one and the loading flag stays set.
\<close>

theorem chat_every_invocation_counterexample:
  "sendChatMessage (Reply (Some ''Aim for 8 hours.'') (Some (4 / 5))) ''   '' initial_state
     = Inr initial_state
   \<and> chatMessages initial_state = []
   \<and> sendChatMessage (Reply (Some ''Aim for 8 hours.'') (Some (4 / 5))) ''Should I take a rest day?''
        (initial_state\<lparr>isLoadingChat := True\<rparr>)
       = Inr (initial_state\<lparr>isLoadingChat := True\<rparr>)
   \<and> trainerMessages
        (askQuestion (Reply (Some ''Aim for 8 hours.'') (Some (4 / 5))) ''10:01:00 AM'' ''10:01:02 AM''
           (demo_trainer_state\<lparr>modelInfo := None\<rparr>)) = []
   \<and> sendChatMessage NeverSettles ''Should I take a rest day?'' initial_state
       = Inr (initial_state\<lparr>chatMessages := [user_entry ''Should I take a rest day?''],
                           isLoadingChat := True\<rparr>)"
  by (simp add: sendChatMessage_def askQuestion_def js_blank_def js_trim_def js_whitespace_def
      initial_state_def demo_trainer_state_def chat_request_def sendChatMessage_begin_def)

section \<open>A reply with confidence 0\<close>

lemma render_message_nonzero_confidence:
  "binary64 c \<noteq> Some 0 \<Longrightarrow>
   render_message (ai_entry r (Some c))
     = [Paragraph r, ConfidenceLine (map_option (to_fixed 0) (js_times (binary64 c) 100))]"
  by (simp add: render_message_def js_and_def react_child_def ai_entry_def)

lemma render_message_no_confidence:
  "render_message (ai_entry r None) = [Paragraph r]"
  by (simp add: render_message_def js_and_def react_child_def ai_entry_def)

text \<open>
  A confidence of 0.145 is shown as 14%: it parses to the number just below 0.145, and
  the product with 100 rounds to a number below 14.5.
\<close>

lemma confidence_rounded_product:
  "render_message (ai_entry r (Some (29 / 200))) = [Paragraph r, ConfidenceLine (Some 14)]"
proof -
  have a: "binary64 (29 / 200) = Some (5224175567749775 / 2 ^ 55)"
    using binary64_normal [of "- 3" "29 / 200"]
    by (simp add: round_ties_even_def powr_minus)
  have b: "binary64 (5224175567749775 / 2 ^ 55 * 100) = Some (8162774324609023 / 2 ^ 49)"
    using binary64_normal [of 3 "5224175567749775 / 2 ^ 55 * 100"]
    by (simp add: round_ties_even_def powr_minus)
  have c: "to_fixed 0 (8162774324609023 / 2 ^ 49) = 14"
    by (simp add: to_fixed_def)
  show ?thesis
    using b c by (simp add: render_message_def js_and_def react_child_def ai_entry_def a js_times_def)
qed

text \<open>
  Claim C1. The claim asks that a reply with confidence 0 is shown with its confidence.
  The guard \<^verbatim>\<open>msg.confidence &&\<close> is falsy at 0, so the "Confidence: 0%" line is
  not produced; the expression evaluates to the number 0 itself, which React prints as a
  bare "0" after the text. The theorem runs the code on such a reply, from the request
  to the rendered chat log.
\<close>

theorem zero_confidence_line_missing:
  "append_reply (JsonObject r (Some 0)) prev = Inr (prev @ [ai_entry r (Some 0)])
   \<and> render_message (ai_entry r (Some 0)) = [Paragraph r, NumberText 0]
   \<and> (\<exists>st'. sendChatMessage (Reply (Some ''Please train the AI on your data first.'') (Some 0))
               ''What is my optimal sleep duration?''
               (initial_state\<lparr>healthData := Some demo_health_data\<rparr>)
             = Inr st'
           \<and> Dashboard st' ! 4
             = ChatLog
                 [[Paragraph (Some ''What is my optimal sleep duration?'')],
                  [Paragraph (Some ''Please train the AI on your data first.''), NumberText 0]]
                 False)"
proof -
  have z: "binary64 0 = Some 0" by (simp add: binary64_def)
  have a: "render_message (ai_entry r (Some 0)) = [Paragraph r, NumberText 0]" for r
    by (simp add: render_message_def js_and_def react_child_def ai_entry_def z)
  have b: "\<not> js_blank ''What is my optimal sleep duration?''"
    by (simp add: js_blank_def js_trim_def js_whitespace_def)
  have c: "hasData demo_health_data"
    by (simp add: hasData_def demo_health_data_def demo_sleep_def)
  have d: "render_message (user_entry q) = [Paragraph (Some q)]" for q
    by (simp add: render_message_def js_and_def react_child_def user_entry_def)
  have e: "append_reply (JsonObject r (Some 0)) prev = Inr (prev @ [ai_entry r (Some 0)])"
    by (simp add: append_reply_def reply_properties_def)
  have f: "sendChatMessage (Reply (Some ''Please train the AI on your data first.'') (Some 0))
               ''What is my optimal sleep duration?''
               (initial_state\<lparr>healthData := Some demo_health_data\<rparr>)
             = Inr (initial_state
                    \<lparr>healthData := Some demo_health_data,
                     chatMessages :=
                       [user_entry ''What is my optimal sleep duration?'',
                        ai_entry (Some ''Please train the AI on your data first.'') (Some 0)],
                     chatInput := [], isLoadingChat := False\<rparr>)"
    using b by (simp add: sendChatMessage_reply initial_state_def)
  have g: "Dashboard (initial_state
                    \<lparr>healthData := Some demo_health_data,
                     chatMessages :=
                       [user_entry ''What is my optimal sleep duration?'',
                        ai_entry (Some ''Please train the AI on your data first.'') (Some 0)],
                     chatInput := [], isLoadingChat := False\<rparr>) ! 4
             = ChatLog
                 [[Paragraph (Some ''What is my optimal sleep duration?'')],
                  [Paragraph (Some ''Please train the AI on your data first.''), NumberText 0]]
                 False"
    by (simp add: a c d Dashboard_def initial_state_def renderCharts_def)
  show ?thesis
    using a e f g by simp
qed

section \<open>Properties of the merge step\<close>

lemma py_or_first_present:
  "preferred date \<noteq> Some 0 \<Longrightarrow>
   py_or (preferred date) (other date) = first_present preferred other date"
  by (auto simp add: py_or_def first_present_def split: option.splits)

lemma select_value_agrees_off_zero:
  "oura_data date \<noteq> Some 0 \<Longrightarrow> apple_data date \<noteq> Some 0 \<Longrightarrow>
   select_value ''sleep'' oura_data apple_data date = Bound (first_present oura_data apple_data date)
   \<and> select_value ''steps'' oura_data apple_data date = Bound (first_present apple_data oura_data date)
   \<and> select_value ''heart_rate'' oura_data apple_data date
       = Bound (first_present oura_data apple_data date)"
  by (simp add: select_value_def py_or_first_present)

text \<open>
  Claim C2. The claim lets the preferred source win whenever it has a value, 0 included.
  The snippet's \<^verbatim>\<open>or\<close> treats a 0 of the preferred source as missing: for steps on a
  day where Apple Health holds 0 and the ring 5400 it selects 5400 (the policy gives 0),
  and for sleep on a night where the ring holds 0 and Apple Health nothing it selects
  \<^verbatim>\<open>None\<close> (the policy gives 0). The theorem evaluates both.
\<close>

theorem merge_zero_treated_as_missing:
  "select_value ''steps'' [''2024-03-02'' \<mapsto> 5400] [''2024-03-02'' \<mapsto> 0] ''2024-03-02''
     = Bound (Some 5400)
   \<and> first_present [''2024-03-02'' \<mapsto> 0] [''2024-03-02'' \<mapsto> 5400] ''2024-03-02'' = Some 0
   \<and> select_value ''sleep'' [''2024-03-02'' \<mapsto> 0] Map.empty ''2024-03-02'' = Bound None
   \<and> first_present [''2024-03-02'' \<mapsto> 0] Map.empty ''2024-03-02'' = Some 0"
  by (simp add: select_value_def py_or_def first_present_def)

section \<open>Properties of the anomaly detector\<close>

lemma count_none:
  "list_all (\<lambda>v. \<not> t < v) xs \<Longrightarrow> longest_run_above xs t = 0"
  by (induction xs) simp_all

lemma count_run_then_none:
  "list_all (\<lambda>v. t < v) run \<Longrightarrow> list_all (\<lambda>v. \<not> t < v) rest \<Longrightarrow>
   longest_run_above (run @ rest) t = length run"
proof (induction run)
  case Nil
  then show ?case by (simp add: count_none)
next
  case (Cons x run)
  have "takeWhile (\<lambda>v. t < v) (run @ rest) = run"
    using Cons.prems by (cases rest) (auto simp add: takeWhile_append list_all_iff)
  then show ?case using Cons by simp
qed

lemma count_isolated_run:
  "list_all (\<lambda>v. \<not> t < v) before \<Longrightarrow> list_all (\<lambda>v. t < v) run \<Longrightarrow>
   list_all (\<lambda>v. \<not> t < v) rest \<Longrightarrow>
   longest_run_above (before @ run @ rest) t = length run"
  by (induction before) (simp_all add: count_run_then_none)

lemma count_ge_prefix_run:
  "list_all (\<lambda>v. t < v) run \<Longrightarrow> length run \<le> longest_run_above (run @ zs) t"
proof (cases run)
  case Nil
  then show ?thesis by simp
next
  case (Cons x run')
  assume "list_all (\<lambda>v. t < v) run"
  then have "takeWhile (\<lambda>v. t < v) (run @ zs) = run @ takeWhile (\<lambda>v. t < v) zs"
    by (simp add: list_all_iff)
  then have "length run \<le> length (takeWhile (\<lambda>v. t < v) (run @ zs))"
    by simp
  then show ?thesis
    unfolding Cons by simp
qed

lemma count_ge_infix_run:
  "list_all (\<lambda>v. t < v) run \<Longrightarrow>
   length run \<le> longest_run_above (ys @ run @ zs) t"
proof (induction ys)
  case Nil
  then show ?case by (simp add: count_ge_prefix_run)
next
  case (Cons y ys)
  then have "length run \<le> longest_run_above (ys @ run @ zs) t"
    by simp
  then show ?case by simp
qed

lemma has_runI:
  "xs = ys @ run @ zs \<Longrightarrow> length run = k \<Longrightarrow> list_all (\<lambda>v. t < v) run \<Longrightarrow> has_run k t xs"
  unfolding has_run_def by (intro exI conjI)

lemma count_ge_run_exists:
  "k \<le> longest_run_above xs t \<Longrightarrow> has_run k t xs"
proof (induction xs)
  case Nil
  show ?case
    by (rule has_runI [of _ "[]" "[]" "[]"]) (use Nil in simp_all)
next
  case (Cons x xs)
  define tw where "tw = takeWhile (\<lambda>v. t < v) (x # xs)"
  have unfold: "longest_run_above (x # xs) t
                = max (length tw) (longest_run_above xs t)"
    by (simp only: longest_run_above.simps tw_def)
  show ?case
  proof (cases "k \<le> length tw")
    case True
    have "take k tw @ drop k tw @ dropWhile (\<lambda>v. t < v) (x # xs)
          = tw @ dropWhile (\<lambda>v. t < v) (x # xs)"
      by (simp only: append_assoc[symmetric] append_take_drop_id)
    then have split: "x # xs = [] @ take k tw @ (drop k tw @ dropWhile (\<lambda>v. t < v) (x # xs))"
      by (simp only: append_Nil takeWhile_dropWhile_id tw_def)
    have len: "length (take k tw) = k"
      using True by simp
    have "\<forall>v \<in> set (take k tw). t < v"
      unfolding tw_def by (meson in_set_takeD set_takeWhileD)
    then have "list_all (\<lambda>v. t < v) (take k tw)"
      by (simp only: list_all_iff)
    with split len show ?thesis by (rule has_runI)
  next
    case False
    with Cons.prems have "k \<le> longest_run_above xs t"
      unfolding unfold by linarith
    then have "has_run k t xs" by (rule Cons.IH)
    then obtain ys run zs where
      r: "xs = ys @ run @ zs" "length run = k" "list_all (\<lambda>v. t < v) run"
      unfolding has_run_def by blast
    have "x # xs = (x # ys) @ run @ zs"
      using r(1) by simp
    then show ?thesis using r(2,3) by (rule has_runI)
  qed
qed

lemma count_ge_iff:
  "k \<le> longest_run_above xs t \<longleftrightarrow> has_run k t xs"
proof
  assume "k \<le> longest_run_above xs t"
  then show "has_run k t xs" by (rule count_ge_run_exists)
next
  assume "has_run k t xs"
  then obtain ys run zs where
    r: "xs = ys @ run @ zs" "length run = k" "list_all (\<lambda>v. t < v) run"
    unfolding has_run_def by blast
  show "k \<le> longest_run_above xs t"
    using count_ge_infix_run [OF r(3), of ys zs] r(1,2) by simp
qed

lemma elevated_threshold_readme:
  "binary64 baseline = Some b \<Longrightarrow> binary64 std = Some s \<Longrightarrow> binary64 (2 * s) = Some d \<Longrightarrow>
   elevated_threshold (readme_module recent baseline std) = binary64 (b + d)"
  by (simp add: elevated_threshold_def readme_module_def float_add_def float_mul_def)

lemma readme_module_fields:
  "count_consecutive_above_threshold (readme_module recent baseline std) = run_counter"
  "recent_heart_rate (readme_module recent baseline std) = recent"
  "consecutive_days (readme_module recent baseline std) = Unbound"
  by (simp_all add: readme_module_def)

lemma threshold_60_5: "elevated_threshold (readme_module recent 60 5) = Some 70"
  by (simp add: elevated_threshold_def readme_module_def float_add_def float_mul_def
      binary64_numeral)

text \<open>
  The README's function on a window with three elevated days in a row: the test
  succeeds, and building the warning raises \<^verbatim>\<open>NameError\<close>. With a module that binds
  \<^verbatim>\<open>consecutive_days\<close> the warning is built, and the caller still receives
  \<^verbatim>\<open>None\<close>.
\<close>

lemma elevated_run_of_three:
  "detect_health_anomalies (readme_module [61, 62, 75, 76, 77, 60] 60 5)
     sleep_data activity_data readiness_data = Inl NameError
   \<and> detect_health_anomalies
       ((readme_module [61, 62, 75, 76, 77, 60] 60 5)\<lparr>consecutive_days := Bound ''3''\<rparr>)
       sleep_data activity_data readiness_data
     = Inr \<lparr>warnings =
              [\<lparr>title = ''Elevated Resting Heart Rate'',
                warning_message = ''Elevated for 3 consecutive days'',
                context_text = ''Previously correlated with stress or early illness'',
                recommendation = ''Consider rest and monitor symptoms''\<rparr>],
            returned = None\<rparr>"
proof -
  have t: "elevated_threshold ((readme_module [61, 62, 75, 76, 77, 60] 60 5)\<lparr>consecutive_days := c\<rparr>)
           = Some 70" for c
    by (simp add: elevated_threshold_def readme_module_def float_add_def float_mul_def
        binary64_numeral)
  show ?thesis
    using t [of Unbound] t [of "Bound ''3''"]
    by (simp add: detect_health_anomalies_def Let_def run_counter_def readme_module_def)
qed

lemma detect_below_three:
  "count_consecutive_above_threshold g (recent_heart_rate g) (elevated_threshold g) < 3 \<Longrightarrow>
   detect_health_anomalies g sleep_data activity_data readiness_data
     = Inr \<lparr>warnings = [], returned = None\<rparr>"
  by (simp add: detect_health_anomalies_def Let_def)

text \<open>
  Claim C3, as the README's detector has it. Whatever the helper, the function builds no
  warning when the count the helper gives for the evaluated window and the threshold
  baseline plus two standard deviations is below 3, a literal. With the run counter as
  the helper this means: no warning is built for a window without three consecutive days
  above that threshold; so none for a window whose only run of elevated days is shorter
  than 3, a run of 2 included, and none for a window with no day above the threshold,
  however many of its days lie below baseline minus two standard deviations.
\<close>

theorem anomaly_warning_needs_elevated_run:
  "(count_consecutive_above_threshold g (recent_heart_rate g) (elevated_threshold g) < 3 \<longrightarrow>
      detect_health_anomalies g sleep_data activity_data readiness_data
        = Inr \<lparr>warnings = [], returned = None\<rparr>)
   \<and> (count_consecutive_above_threshold g = run_counter \<and> elevated_threshold g = Some t \<longrightarrow>
        (\<not> has_run 3 t (recent_heart_rate g) \<longrightarrow>
           detect_health_anomalies g sleep_data activity_data readiness_data
             = Inr \<lparr>warnings = [], returned = None\<rparr>)
        \<and> (recent_heart_rate g = before @ days @ rest
             \<and> list_all (\<lambda>v. \<not> t < v) before \<and> list_all (\<lambda>v. t < v) days
             \<and> list_all (\<lambda>v. \<not> t < v) rest \<and> length days < 3 \<longrightarrow>
           detect_health_anomalies g sleep_data activity_data readiness_data
             = Inr \<lparr>warnings = [], returned = None\<rparr>)
        \<and> (list_all (\<lambda>v. \<not> t < v) (recent_heart_rate g) \<longrightarrow>
           detect_health_anomalies g sleep_data activity_data readiness_data
             = Inr \<lparr>warnings = [], returned = None\<rparr>))"
proof -
  have general: "count_consecutive_above_threshold g (recent_heart_rate g) (elevated_threshold g) < 3 \<longrightarrow>
      detect_health_anomalies g sleep_data activity_data readiness_data
        = Inr \<lparr>warnings = [], returned = None\<rparr>"
    by (rule impI) (rule detect_below_three)
  have counted: "count_consecutive_above_threshold g = run_counter \<and> elevated_threshold g = Some t \<longrightarrow>
        (\<not> has_run 3 t (recent_heart_rate g) \<longrightarrow>
           detect_health_anomalies g sleep_data activity_data readiness_data
             = Inr \<lparr>warnings = [], returned = None\<rparr>)
        \<and> (recent_heart_rate g = before @ days @ rest
             \<and> list_all (\<lambda>v. \<not> t < v) before \<and> list_all (\<lambda>v. t < v) days
             \<and> list_all (\<lambda>v. \<not> t < v) rest \<and> length days < 3 \<longrightarrow>
           detect_health_anomalies g sleep_data activity_data readiness_data
             = Inr \<lparr>warnings = [], returned = None\<rparr>)
        \<and> (list_all (\<lambda>v. \<not> t < v) (recent_heart_rate g) \<longrightarrow>
           detect_health_anomalies g sleep_data activity_data readiness_data
             = Inr \<lparr>warnings = [], returned = None\<rparr>)"
  proof
    assume h: "count_consecutive_above_threshold g = run_counter \<and> elevated_threshold g = Some t"
    have count: "count_consecutive_above_threshold g (recent_heart_rate g) (elevated_threshold g)
                 = int (longest_run_above (recent_heart_rate g) t)"
      using h by (simp add: run_counter_def)
    have below: "longest_run_above (recent_heart_rate g) t < 3 \<Longrightarrow>
           detect_health_anomalies g sleep_data activity_data readiness_data
             = Inr \<lparr>warnings = [], returned = None\<rparr>"
      using detect_below_three [of g] count by simp
    have "\<not> has_run 3 t (recent_heart_rate g) \<longrightarrow>
           detect_health_anomalies g sleep_data activity_data readiness_data
             = Inr \<lparr>warnings = [], returned = None\<rparr>"
    proof
      assume "\<not> has_run 3 t (recent_heart_rate g)"
      then have "\<not> 3 \<le> longest_run_above (recent_heart_rate g) t"
        by (simp only: count_ge_iff not_False_eq_True)
      then have "longest_run_above (recent_heart_rate g) t < 3" by linarith
      then show "detect_health_anomalies g sleep_data activity_data readiness_data
             = Inr \<lparr>warnings = [], returned = None\<rparr>"
        by (rule below)
    qed
    moreover have "recent_heart_rate g = before @ days @ rest
             \<and> list_all (\<lambda>v. \<not> t < v) before \<and> list_all (\<lambda>v. t < v) days
             \<and> list_all (\<lambda>v. \<not> t < v) rest \<and> length days < 3 \<longrightarrow>
           detect_health_anomalies g sleep_data activity_data readiness_data
             = Inr \<lparr>warnings = [], returned = None\<rparr>"
    proof
      assume r: "recent_heart_rate g = before @ days @ rest
             \<and> list_all (\<lambda>v. \<not> t < v) before \<and> list_all (\<lambda>v. t < v) days
             \<and> list_all (\<lambda>v. \<not> t < v) rest \<and> length days < 3"
      then have "longest_run_above (recent_heart_rate g) t = length days"
        using count_isolated_run [of t before days rest] by simp
      then have "longest_run_above (recent_heart_rate g) t < 3" using r by simp
      then show "detect_health_anomalies g sleep_data activity_data readiness_data
             = Inr \<lparr>warnings = [], returned = None\<rparr>"
        by (rule below)
    qed
    moreover have "list_all (\<lambda>v. \<not> t < v) (recent_heart_rate g) \<longrightarrow>
           detect_health_anomalies g sleep_data activity_data readiness_data
             = Inr \<lparr>warnings = [], returned = None\<rparr>"
    proof
      assume "list_all (\<lambda>v. \<not> t < v) (recent_heart_rate g)"
      then have "longest_run_above (recent_heart_rate g) t = 0" by (rule count_none)
      then have "longest_run_above (recent_heart_rate g) t < 3" by simp
      then show "detect_health_anomalies g sleep_data activity_data readiness_data
             = Inr \<lparr>warnings = [], returned = None\<rparr>"
        by (rule below)
    qed
    ultimately show "(\<not> has_run 3 t (recent_heart_rate g) \<longrightarrow>
           detect_health_anomalies g sleep_data activity_data readiness_data
             = Inr \<lparr>warnings = [], returned = None\<rparr>)
        \<and> (recent_heart_rate g = before @ days @ rest
             \<and> list_all (\<lambda>v. \<not> t < v) before \<and> list_all (\<lambda>v. t < v) days
             \<and> list_all (\<lambda>v. \<not> t < v) rest \<and> length days < 3 \<longrightarrow>
           detect_health_anomalies g sleep_data activity_data readiness_data
             = Inr \<lparr>warnings = [], returned = None\<rparr>)
        \<and> (list_all (\<lambda>v. \<not> t < v) (recent_heart_rate g) \<longrightarrow>
           detect_health_anomalies g sleep_data activity_data readiness_data
             = Inr \<lparr>warnings = [], returned = None\<rparr>)"
      by (intro conjI)
  qed
  from general counted show ?thesis by (intro conjI)
qed

theorem anomaly_warning_needs_elevated_run_witness:
  "count_consecutive_above_threshold (readme_module [61, 62, 75, 76, 60] 60 5) = run_counter
   \<and> elevated_threshold (readme_module [61, 62, 75, 76, 60] 60 5) = Some 70
   \<and> count_consecutive_above_threshold (readme_module [61, 62, 75, 76, 60] 60 5)
        (recent_heart_rate (readme_module [61, 62, 75, 76, 60] 60 5))
        (elevated_threshold (readme_module [61, 62, 75, 76, 60] 60 5)) < 3
   \<and> \<not> has_run 3 70 (recent_heart_rate (readme_module [61, 62, 75, 76, 60] 60 5))
   \<and> recent_heart_rate (readme_module [61, 62, 75, 76, 60] 60 5) = [61, 62] @ [75, 76] @ [60]
   \<and> list_all (\<lambda>v. \<not> 70 < v) [61, 62 :: real]
   \<and> list_all (\<lambda>v. 70 < v) [75, 76 :: real]
   \<and> list_all (\<lambda>v. \<not> 70 < v) [60 :: real]
   \<and> length [75, 76 :: real] < 3
   \<and> detect_health_anomalies (readme_module [61, 62, 75, 76, 60] 60 5) () () ()
       = Inr \<lparr>warnings = [], returned = None\<rparr>
   \<and> count_consecutive_above_threshold (readme_module [48, 47, 46] 60 5) = run_counter
   \<and> elevated_threshold (readme_module [48, 47, 46] 60 5) = Some 70
   \<and> list_all (\<lambda>v. \<not> 70 < v) (recent_heart_rate (readme_module [48, 47, 46] 60 5))
   \<and> detect_health_anomalies (readme_module [48, 47, 46] 60 5) () () ()
       = Inr \<lparr>warnings = [], returned = None\<rparr>"
proof -
  have a: "count_consecutive_above_threshold (readme_module [61, 62, 75, 76, 60] 60 5) = run_counter
      \<and> elevated_threshold (readme_module [61, 62, 75, 76, 60] 60 5) = Some 70"
    by (simp only: readme_module_fields threshold_60_5)
  have b: "recent_heart_rate (readme_module [61, 62, 75, 76, 60] 60 5) = [61, 62] @ [75, 76] @ [60]
      \<and> list_all (\<lambda>v. \<not> 70 < v) [61, 62 :: real]
      \<and> list_all (\<lambda>v. 70 < v) [75, 76 :: real]
      \<and> list_all (\<lambda>v. \<not> 70 < v) [60 :: real]
      \<and> length [75, 76 :: real] < 3"
    by (simp add: readme_module_fields)
  have c: "count_consecutive_above_threshold (readme_module [61, 62, 75, 76, 60] 60 5)
        (recent_heart_rate (readme_module [61, 62, 75, 76, 60] 60 5))
        (elevated_threshold (readme_module [61, 62, 75, 76, 60] 60 5)) < 3"
    by (simp add: readme_module_fields threshold_60_5 run_counter_def)
  have "\<not> 3 \<le> longest_run_above [61, 62, 75, 76, 60] 70" by simp
  then have d: "\<not> has_run 3 70 (recent_heart_rate (readme_module [61, 62, 75, 76, 60] 60 5))"
    by (simp only: count_ge_iff readme_module_fields not_False_eq_True)
  have e: "count_consecutive_above_threshold (readme_module [48, 47, 46] 60 5) = run_counter
      \<and> elevated_threshold (readme_module [48, 47, 46] 60 5) = Some 70"
    by (simp only: readme_module_fields threshold_60_5)
  have f: "list_all (\<lambda>v. \<not> 70 < v) (recent_heart_rate (readme_module [48, 47, 46] 60 5))"
    by (simp add: readme_module_fields)
  have "detect_health_anomalies (readme_module [61, 62, 75, 76, 60] 60 5) () () ()
       = Inr \<lparr>warnings = [], returned = None\<rparr>"
    using anomaly_warning_needs_elevated_run
        [where g = "readme_module [61, 62, 75, 76, 60] 60 5" and t = 70
           and before = "[61, 62]" and days = "[75, 76]" and rest = "[60]"
           and sleep_data = "()" and activity_data = "()" and readiness_data = "()"]
      a b
    by blast
  moreover have "detect_health_anomalies (readme_module [48, 47, 46] 60 5) () () ()
       = Inr \<lparr>warnings = [], returned = None\<rparr>"
    using anomaly_warning_needs_elevated_run
        [where g = "readme_module [48, 47, 46] 60 5" and t = 70
           and sleep_data = "()" and activity_data = "()" and readiness_data = "()"]
      e f
    by blast
  ultimately show ?thesis using a b c d e f by (intro conjI) simp_all
qed

text \<open>
  The claim as first worded counts deviations on either side of the baseline. Three
  consecutive days at 48, 47 and 46 against a baseline of 60 with standard deviation 5
  lie below 60 - 10, a deviation run of length 3, and the function ends with no warning
  built.
\<close>

theorem anomaly_two_sided_counterexample:
  "list_all (deviation_beyond 60 5) [48, 47, 46]
   \<and> 3 \<le> length [48, 47, 46 :: real]
   \<and> detect_health_anomalies (readme_module [48, 47, 46] 60 5) () () ()
       = Inr \<lparr>warnings = [], returned = None\<rparr>"
  by (simp add: deviation_beyond_def detect_health_anomalies_def threshold_60_5 Let_def
      run_counter_def readme_module_fields)

section \<open>Properties of the correlation engine\<close>

lemma sum_list_constant: "\<forall>v \<in> set vs. v = c \<Longrightarrow> sum_list vs = real (length vs) * c"
  by (induction vs) (simp_all add: algebra_simps)

lemma sum_list_all_zero: "\<forall>v \<in> set vs. f v = (0::real) \<Longrightarrow> sum_list (map f vs) = 0"
  by (induction vs) simp_all

lemma variance_constant:
  assumes "\<forall>v \<in> set vs. v = c"
  shows "variance vs = 0"
proof (cases "vs = []")
  case True
  then show ?thesis by (simp add: variance_def)
next
  case False
  have "mean vs = c"
    using False sum_list_constant [OF assms] by (simp add: mean_def)
  then have "\<forall>v \<in> set vs. (v - mean vs)\<^sup>2 = 0"
    using assms by simp
  then have "sum_list (map (\<lambda>v. (v - mean vs)\<^sup>2) vs) = 0"
    by (rule sum_list_all_zero)
  then show ?thesis
    by (simp add: variance_def)
qed

lemma constant_seriesD:
  "constant_series s \<Longrightarrow> \<exists>c. \<forall>p \<in> set s. snd p = c"
  by (cases s) (auto simp add: constant_series_def list_all_iff)

lemma constant_shift_back: "constant_series s \<Longrightarrow> constant_series (shift_back s)"
  by (cases s) (auto simp add: constant_series_def shift_back_def list_all_iff split: prod.splits)

lemma align_fst: "v \<in> set (map fst (align xs ys)) \<Longrightarrow> v \<in> snd ` set xs"
  by (induction xs ys rule: align.induct) (auto split: option.splits)

lemma align_snd: "w \<in> set (map snd (align xs ys)) \<Longrightarrow> w \<in> snd ` set ys"
  by (induction xs ys rule: align.induct)
    (auto split: option.splits dest!: map_of_SomeD intro: rev_image_eqI)

lemma correlate_constant_left:
  assumes "constant_series s"
  shows "correlate conf n a b lag (align s t) = Inr None"
proof -
  obtain c where c: "\<forall>p \<in> set s. snd p = c"
    using constant_seriesD [OF assms] by blast
  have "\<forall>v \<in> set (map fst (align s t)). v = c"
    using c align_fst by fastforce
  then have "variance (map fst (align s t)) = 0"
    by (rule variance_constant)
  then show ?thesis
    by (simp add: correlate_def Let_def)
qed

lemma correlate_constant_right:
  assumes "constant_series t"
  shows "correlate conf n a b lag (align s t) = Inr None"
proof -
  obtain c where c: "\<forall>p \<in> set t. snd p = c"
    using constant_seriesD [OF assms] by blast
  have "\<forall>w \<in> set (map snd (align s t)). w = c"
    using c align_snd by fastforce
  then have "variance (map snd (align s t)) = 0"
    by (rule variance_constant)
  then show ?thesis
    by (simp add: correlate_def Let_def)
qed

lemma pair_results_constant:
  "constant_series s \<or> constant_series t \<Longrightarrow>
   pair_results conf n ((a, s), (b, t)) = [Inr None, Inr None]"
  by (auto simp add: pair_results_def correlate_constant_left correlate_constant_right
      constant_shift_back)

lemma pearson_guarded:
  "variance xs \<noteq> 0 \<Longrightarrow> variance ys \<noteq> 0 \<Longrightarrow> \<exists>r. pearson xs ys = Inr r"
  by (simp add: pearson_def std_dev_def)

lemma correlate_total: "\<exists>found. correlate conf n a b lag pts = Inr found"
proof (cases "length pts < n \<or> variance (map fst pts) = 0 \<or> variance (map snd pts) = 0")
  case True
  then show ?thesis by (auto simp add: correlate_def Let_def)
next
  case False
  then obtain r where "pearson (map fst pts) (map snd pts) = Inr r"
    using pearson_guarded by blast
  with False show ?thesis by (simp add: correlate_def Let_def)
qed

lemma correlate_metrics:
  "correlate conf n a b lag pts = Inr (Some x) \<Longrightarrow> metric_a x = a \<and> metric_b x = b"
  by (auto simp add: correlate_def Let_def split: if_splits sum.splits)

lemma pair_results_total:
  "r \<in> set (pair_results conf n pq) \<Longrightarrow> \<exists>found. r = Inr found"
  using correlate_total by (cases pq) (auto simp add: pair_results_def split: prod.splits)

lemma pair_results_metrics:
  "Inr (Some x) \<in> set (pair_results conf n ((a, s), (b, t))) \<Longrightarrow> metric_a x = a \<and> metric_b x = b"
  by (auto simp add: pair_results_def dest: correlate_metrics[OF sym])

lemma pairs_of_members: "(p, q) \<in> set (pairs_of xs) \<Longrightarrow> p \<in> set xs \<and> q \<in> set xs"
  by (induction xs) auto

lemma collect_total:
  "\<forall>r \<in> set rs. \<exists>found. r = Inr found \<Longrightarrow>
   \<exists>xs. collect rs = Inr xs \<and> set xs = {x. Inr (Some x) \<in> set rs}"
proof (induction rs)
  case Nil
  then show ?case by simp
next
  case (Cons r rs)
  then obtain found where r: "r = Inr found" by auto
  from Cons obtain xs where xs: "collect rs = Inr xs" "set xs = {x. Inr (Some x) \<in> set rs}"
    by auto
  show ?case
    using r xs by (cases found) auto
qed

lemma set_insert_ranked: "set (insert_ranked i js) = insert i (set js)"
  by (induction js) auto

lemma set_rank: "set (rank found) = set found"
  by (induction found) (simp_all add: rank_def set_insert_ranked)

text \<open>
  Claim C5. For a dataset (metric kinds distinct) that holds a constant-valued series
  under kind \<open>k\<close>, the analysis returns a list of insights, not the division error, and
  none of them references \<open>k\<close>.
\<close>

theorem constant_series_excluded:
  assumes "distinct (map fst ds)" and "(k, s) \<in> set ds" and "constant_series s"
  shows "\<exists>found. analyze_insights conf n top_k ds = Inr found \<and> filter (references k) found = []"
proof -
  define rs where "rs = concat (map (pair_results conf n) (pairs_of ds))"
  have "\<forall>r \<in> set rs. \<exists>found. r = Inr found"
    unfolding rs_def using pair_results_total by auto
  then obtain xs where xs: "collect rs = Inr xs" "set xs = {x. Inr (Some x) \<in> set rs}"
    using collect_total by blast
  have result: "analyze_insights conf n top_k ds = Inr (take top_k (rank xs))"
    by (simp add: analyze_insights_def rs_def[symmetric] xs(1))
  have "\<not> references k x" if "x \<in> set (take top_k (rank xs))" for x
  proof
    assume ref: "references k x"
    from that have "x \<in> set xs"
      using set_rank in_set_takeD by fastforce
    then have "Inr (Some x) \<in> set rs"
      using xs(2) by simp
    then obtain a s' b t' where
      pq: "((a, s'), (b, t')) \<in> set (pairs_of ds)"
      and x: "Inr (Some x) \<in> set (pair_results conf n ((a, s'), (b, t')))"
      unfolding rs_def by auto
    have names: "metric_a x = a \<and> metric_b x = b"
      using x by (rule pair_results_metrics)
    have mem: "(a, s') \<in> set ds \<and> (b, t') \<in> set ds"
      using pq by (rule pairs_of_members)
    have "constant_series s' \<or> constant_series t'"
    proof (cases "a = k")
      case True
      then have "s' = s"
        using mem assms(1,2) eq_key_imp_eq_value by fastforce
      then show ?thesis using assms(3) by simp
    next
      case False
      then have "b = k" using ref names by (simp add: references_def)
      then have "t' = s"
        using mem assms(1,2) eq_key_imp_eq_value by fastforce
      then show ?thesis using assms(3) by simp
    qed
    then have "pair_results conf n ((a, s'), (b, t')) = [Inr None, Inr None]"
      by (rule pair_results_constant)
    with x show False by simp
  qed
  then have "filter (references k) (take top_k (rank xs)) = []"
    by (simp add: filter_empty_conv)
  with result show ?thesis by blast
qed

text \<open>
  On that week the analysis (minimum sample 7, top 5, confidence equal to the absolute
  correlation) returns the one insight on sleep and heart rate and nothing on calories.
\<close>

lemma week_means:
  "mean [6, 7, 8, 6, 7, 8, 7] = 7" "mean [64, 63, 62, 64, 63, 62, 63] = 63"
  by (simp_all add: mean_def)

lemma week_variances:
  "variance [6, 7, 8, 6, 7, 8, 7] = 4 / 7" "variance [64, 63, 62, 64, 63, 62, 63] = 4 / 7"
  by (simp_all add: variance_def week_means)

lemma week_pearson: "pearson [6, 7, 8, 6, 7, 8, 7] [64, 63, 62, 64, 63, 62, 63] = Inr (- 1)"
  by (simp add: pearson_def std_dev_def week_variances covariance_def week_means)

lemma week_analysis:
  "analyze_insights (\<lambda>n r. r) 7 5 week_dataset =
   Inr [\<lparr>metric_a = ''sleep'', metric_b = ''heart_rate'', lagged = False, correlation = - 1,
         insight_confidence = 1, sample_size = 7\<rparr>]"
  by (simp add: analyze_insights_def week_dataset_def pair_results_def correlate_def shift_back_def
      week_variances week_pearson rank_def variance_constant[where c=2000])

theorem constant_series_excluded_witness:
  "distinct (map fst week_dataset)
   \<and> (''calories'', [(1, 2000), (2, 2000), (3, 2000), (4, 2000), (5, 2000), (6, 2000), (7, 2000)])
       \<in> set week_dataset
   \<and> constant_series [(1, 2000), (2, 2000), (3, 2000), (4, 2000), (5, 2000), (6, 2000), (7, 2000)]
   \<and> analyze_insights (\<lambda>n r. r) 7 5 week_dataset =
       Inr [\<lparr>metric_a = ''sleep'', metric_b = ''heart_rate'', lagged = False, correlation = - 1,
             insight_confidence = 1, sample_size = 7\<rparr>]
   \<and> filter (references ''calories'')
        [\<lparr>metric_a = ''sleep'', metric_b = ''heart_rate'', lagged = False, correlation = - 1,
          insight_confidence = 1, sample_size = 7\<rparr>] = []"
proof -
  have d: "distinct (map fst week_dataset)"
    by (simp add: week_dataset_def)
  have m: "(''calories'', [(1, 2000), (2, 2000), (3, 2000), (4, 2000), (5, 2000), (6, 2000), (7, 2000)])
       \<in> set week_dataset"
    by (simp add: week_dataset_def)
  have c: "constant_series [(1, 2000), (2, 2000), (3, 2000), (4, 2000), (5, 2000), (6, 2000), (7, 2000)]"
    by (simp add: constant_series_def)
  show ?thesis
    using constant_series_excluded [OF d m c, of "\<lambda>n r. r" 7 5] d m c
    by (simp add: week_analysis)
qed

end
